theory Spec2Isabelle
  imports Main
begin

section \<open>Python values, exceptions and the console\<close>

text \<open>
  The program is \<^verbatim>\<open>reddit_scraper.py\<close>: one class \<^verbatim>\<open>RedditScraper\<close> with the methods
  \<^verbatim>\<open>get_top_posts\<close>, \<^verbatim>\<open>scrape_multiple_subreddits\<close>, \<^verbatim>\<open>save_to_excel\<close>,
  \<^verbatim>\<open>save_to_csv\<close>, and the function \<^verbatim>\<open>main\<close>. Everything it does to the outside
  goes through libraries (PRAW, pandas, \<^verbatim>\<open>os\<close>, \<^verbatim>\<open>datetime\<close>); their calls are
  parameters of the model, and each of them may raise.

  A raised exception is a value; \<^verbatim>\<open>str(e)\<close> is the text it carries. A function that
  can be left by an exception returns \<open>exn + 'a\<close>, with \<open>Inl\<close> for the exception
  that propagates to the caller.
\<close>

datatype exn = Exn string

fun str_exn :: "exn \<Rightarrow> string" where
  "str_exn (Exn m) = m"

record datetime =
  dt_year :: nat
  dt_month :: nat
  dt_day :: nat
  dt_hour :: nat
  dt_minute :: nat
  dt_second :: nat

datatype pyval = PyStr string | PyInt int | PyBool bool | PyDatetime datetime

subsection \<open>Decimal text of a number, and \<^verbatim>\<open>strftime("%Y%m%d_%H%M%S")\<close>\<close>

definition digit_char :: "nat \<Rightarrow> char" where
  "digit_char d = ''0123456789'' ! d"

fun str_nat :: "nat \<Rightarrow> string" where
  "str_nat n = (if n < 10 then [digit_char n] else str_nat (n div 10) @ [digit_char (n mod 10)])"

declare str_nat.simps [simp del]

text \<open>\<^verbatim>\<open>%m\<close>, \<^verbatim>\<open>%d\<close>, \<^verbatim>\<open>%H\<close>, \<^verbatim>\<open>%M\<close>, \<^verbatim>\<open>%S\<close>: two digits, zero-padded.\<close>

definition zfill2 :: "nat \<Rightarrow> string" where
  "zfill2 n = (if n < 10 then CHR ''0'' # str_nat n else str_nat n)"

text \<open>
  \<^verbatim>\<open>%Y\<close> is the year in decimal; the C library pads it or not below 1000, and the
  two agree from 1000 on.
\<close>

definition strftime_Ymd_HMS :: "datetime \<Rightarrow> string" where
  "strftime_Ymd_HMS t =
     str_nat (dt_year t) @ zfill2 (dt_month t) @ zfill2 (dt_day t) @ ''_'' @
     zfill2 (dt_hour t) @ zfill2 (dt_minute t) @ zfill2 (dt_second t)"

subsection \<open>String tests of \<^verbatim>\<open>main\<close> and \<^verbatim>\<open>os.path\<close>\<close>

definition endswith :: "string \<Rightarrow> string \<Rightarrow> bool" where
  "endswith s suffix = (length suffix \<le> length s \<and> drop (length s - length suffix) s = suffix)"

text \<open>
  \<^verbatim>\<open>os.path.dirname\<close> of \<^verbatim>\<open>posixpath\<close>: the text up to and including the last
  \<^verbatim>\<open>/\<close>, with trailing slashes stripped unless it consists of slashes only.
\<close>

definition dirname :: "string \<Rightarrow> string" where
  "dirname p =
     (let head = rev (dropWhile (\<lambda>c. c \<noteq> CHR ''/'') (rev p))
      in if head \<noteq> [] \<and> \<not> list_all (\<lambda>c. c = CHR ''/'') head
         then rev (dropWhile (\<lambda>c. c = CHR ''/'') (rev head))
         else head)"

section \<open>The raw post and the post record\<close>

text \<open>
  A raw post is the PRAW submission as the loop of \<^verbatim>\<open>get_top_posts\<close> reads it. The
  attribute \<^verbatim>\<open>author\<close> is \<^verbatim>\<open>None\<close> or an object with a \<^verbatim>\<open>name\<close>; the object is
  truthy, so \<^verbatim>\<open>if post.author\<close> tests for \<^verbatim>\<open>None\<close>. \<^verbatim>\<open>created_utc\<close> is the epoch in
  whole seconds.
\<close>

record raw_post =
  post_id :: string
  post_title :: string
  post_score :: int
  post_num_comments :: int
  post_created_utc :: int
  post_url :: string
  post_permalink :: string
  post_is_self :: bool
  post_selftext :: string
  post_author :: "string option"

text \<open>
  \<^verbatim>\<open>post_data\<close> is a Python dict: keys in insertion order, an assignment to a present
  key replaces its value in place, an assignment to a new key appends it.
\<close>

type_synonym pydict = "(string \<times> pyval) list"

fun dict_set :: "pydict \<Rightarrow> string \<Rightarrow> pyval \<Rightarrow> pydict" where
  "dict_set [] k v = [(k, v)]"
| "dict_set ((k', v') # d) k v = (if k' = k then (k, v) # d else (k', v') # dict_set d k v)"

fun dict_get :: "pydict \<Rightarrow> string \<Rightarrow> pyval option" where
  "dict_get [] k = None"
| "dict_get ((k', v') # d) k = (if k' = k then Some v' else dict_get d k)"

text \<open>
  Lines 42 to 64, the body of the loop: the record of one post.
  \<^verbatim>\<open>datetime.fromtimestamp\<close> converts the epoch to local time and raises for an epoch
  out of the platform's range; it is the parameter \<open>fromtimestamp\<close>.
\<close>

definition build_post_data :: "(int \<Rightarrow> exn + datetime) \<Rightarrow> string \<Rightarrow> raw_post \<Rightarrow> exn + pydict" where
  "build_post_data fromtimestamp subreddit_name post =
     (case fromtimestamp (post_created_utc post) of
        Inl e \<Rightarrow> Inl e
      | Inr created \<Rightarrow>
          let post_data =
                [(''subreddit'', PyStr subreddit_name),
                 (''post_id'', PyStr (post_id post)),
                 (''title'', PyStr (post_title post)),
                 (''score'', PyInt (post_score post)),
                 (''num_comments'', PyInt (post_num_comments post)),
                 (''created_utc'', PyDatetime created),
                 (''url'', PyStr (post_url post)),
                 (''permalink'', PyStr (''https://www.reddit.com'' @ post_permalink post)),
                 (''is_self_post'', PyBool (post_is_self post))];
              post_data =
                (if post_is_self post
                 then dict_set post_data ''selftext'' (PyStr (post_selftext post))
                 else dict_set post_data ''selftext'' (PyStr ''''));
              post_data =
                (case post_author post of
                   Some name \<Rightarrow> dict_set post_data ''author'' (PyStr name)
                 | None \<Rightarrow> dict_set post_data ''author'' (PyStr ''[deleted]''))
          in Inr post_data)"

section \<open>The world and the collaborators\<close>

text \<open>
  A pandas \<^verbatim>\<open>DataFrame\<close> as the program uses it: column labels and rows of cells, a
  cell \<open>None\<close> being a missing value. \<^verbatim>\<open>df.empty\<close> holds when an axis has length 0.
\<close>

record dataframe =
  df_columns :: "string list"
  df_rows :: "pyval option list list"

definition df_empty :: "dataframe \<Rightarrow> bool" where
  "df_empty df = (df_columns df = [] \<or> df_rows df = [])"

text \<open>\<^verbatim>\<open>pd.DataFrame()\<close>\<close>

definition DataFrame_empty :: dataframe where
  "DataFrame_empty = \<lparr>df_columns = [], df_rows = []\<rparr>"

text \<open>
  \<^verbatim>\<open>pd.DataFrame(records)\<close> for a list of dicts: the columns are the keys in the order
  of their first appearance, one row per dict in the order of the list, a key that a dict
  lacks giving a missing cell.
\<close>

fun add_keys :: "string list \<Rightarrow> string list \<Rightarrow> string list" where
  "add_keys cols [] = cols"
| "add_keys cols (k # ks) = add_keys (if k \<in> set cols then cols else cols @ [k]) ks"

fun columns_of :: "string list \<Rightarrow> pydict list \<Rightarrow> string list" where
  "columns_of cols [] = cols"
| "columns_of cols (d # ds) = columns_of (add_keys cols (map fst d)) ds"

definition DataFrame :: "pydict list \<Rightarrow> dataframe" where
  "DataFrame records =
     (let cols = columns_of [] records
      in \<lparr>df_columns = cols, df_rows = map (\<lambda>d. map (dict_get d) cols) records\<rparr>)"

text \<open>
  What \<^verbatim>\<open>df.to_csv(path, index=...)\<close> and \<^verbatim>\<open>df.to_excel(path, index=...)\<close> put
  into the file, as rows of cells: a header row of the column labels, then the rows of the
  frame; with \<^verbatim>\<open>index=True\<close> every row starts with one more cell, the row number.
\<close>

definition table_rows :: "bool \<Rightarrow> dataframe \<Rightarrow> pyval option list list" where
  "table_rows index df =
     (let header = map (\<lambda>c. Some (PyStr c)) (df_columns df)
      in if index
         then (Some (PyStr []) # header) #
              map (\<lambda>(i, r). Some (PyInt (int i)) # r) (zip [0..<length (df_rows df)] (df_rows df))
         else header # df_rows df)"

datatype file_kind = Xlsx | Csv

text \<open>
  The world the program acts on: the state of the API collaborator (of a type the model
  does not look into), the lines printed, the files written, the directories that exist and
  the seconds spent in \<^verbatim>\<open>time.sleep\<close>.
\<close>

record 's world =
  api :: 's
  console :: "string list"
  files :: "string \<rightharpoonup> file_kind \<times> pyval option list list"
  dirs :: "string set"
  slept :: nat

text \<open>
  \<^verbatim>\<open>print\<close> appends a line to the console. The model takes the console to accept every
  line: a \<^verbatim>\<open>print\<close> that raises (a closed pipe, a full device, a name the encoding of the
  console cannot hold) is outside the model, and every property below is a property of
  the runs in which no \<^verbatim>\<open>print\<close> raises.
\<close>

definition print :: "string \<Rightarrow> 's world \<Rightarrow> 's world" where
  "print line w = w\<lparr>console := console w @ [line]\<rparr>"

definition sleep :: "nat \<Rightarrow> 's world \<Rightarrow> 's world" where
  "sleep n w = w\<lparr>slept := slept w + n\<rparr>"

text \<open>\<^verbatim>\<open>os.path.exists\<close>\<close>

definition path_exists :: "'s world \<Rightarrow> string \<Rightarrow> bool" where
  "path_exists w p = (p \<in> dirs w \<or> files w p \<noteq> None)"

text \<open>
  The collaborators. \<open>reddit_subreddit\<close> is \<^verbatim>\<open>self.reddit.subreddit(name)\<close>: it
  returns a handle or raises. \<open>subreddit_top\<close> is the iteration of
  \<^verbatim>\<open>subreddit.top(time_filter=..., limit=...)\<close>: the posts it yields, in its order, and
  the exception that ends the iteration if one does; the iteration is finite, as the
  collaborator stops at \<^verbatim>\<open>limit\<close> posts or at the end of the listing. Both may change the
  collaborator's state. \<open>os_makedirs\<close> and \<open>to_file\<close> say whether \<^verbatim>\<open>os.makedirs\<close> and the pandas
  writers raise (a path that cannot be written, a frame the format cannot hold).
  \<open>datetime_now\<close> is the clock that \<^verbatim>\<open>datetime.now()\<close> reads.
\<close>

record ('s, 'h) env =
  reddit_subreddit :: "'s \<Rightarrow> string \<Rightarrow> (exn + 'h) \<times> 's"
  subreddit_top :: "'s \<Rightarrow> 'h \<Rightarrow> string \<Rightarrow> int \<Rightarrow> (raw_post list \<times> exn option) \<times> 's"
  fromtimestamp :: "int \<Rightarrow> exn + datetime"
  datetime_now :: datetime
  os_makedirs :: "string \<Rightarrow> exn option"
  to_file :: "file_kind \<Rightarrow> string \<Rightarrow> dataframe \<Rightarrow> exn option"

section \<open>The Forum Fetcher: \<^verbatim>\<open>get_top_posts\<close>\<close>

text \<open>The loop of lines 40 to 66 over the posts the iteration yields.\<close>

fun collect_posts :: "(int \<Rightarrow> exn + datetime) \<Rightarrow> string \<Rightarrow> raw_post list \<Rightarrow> pydict list \<Rightarrow> exn + pydict list" where
  "collect_posts fts subreddit_name [] posts = Inr posts"
| "collect_posts fts subreddit_name (post # rest) posts =
     (case build_post_data fts subreddit_name post of
        Inl e \<Rightarrow> Inl e
      | Inr post_data \<Rightarrow> collect_posts fts subreddit_name rest (posts @ [post_data]))"

text \<open>
  Line 36 stands before the \<^verbatim>\<open>try\<close>: an exception of \<^verbatim>\<open>self.reddit.subreddit\<close> leaves
  \<^verbatim>\<open>get_top_posts\<close>. The \<^verbatim>\<open>try\<close> of lines 39 to 73 holds the iteration and the loop
  body; its handler prints and returns the empty list.
\<close>

definition get_top_posts :: "('s, 'h) env \<Rightarrow> 's world \<Rightarrow> string \<Rightarrow> int \<Rightarrow> string \<Rightarrow> (exn + pydict list) \<times> 's world" where
  "get_top_posts E w subreddit_name limit time_filter =
     (case reddit_subreddit E (api w) subreddit_name of
        (Inl e, s1) \<Rightarrow> (Inl e, w\<lparr>api := s1\<rparr>)
      | (Inr subreddit, s1) \<Rightarrow>
          (case subreddit_top E s1 subreddit time_filter limit of
             ((yielded, raised), s2) \<Rightarrow>
               let w2 = w\<lparr>api := s2\<rparr>;
                   handler = (\<lambda>e. (Inr [],
                     print (''Error scraping r/'' @ subreddit_name @ '': '' @ str_exn e) w2))
               in (case collect_posts (fromtimestamp E) subreddit_name yielded [] of
                     Inl e \<Rightarrow> handler e
                   | Inr posts \<Rightarrow>
                       (case raised of
                          Some e \<Rightarrow> handler e
                        | None \<Rightarrow> (Inr posts,
                            print (''Successfully scraped '' @ str_nat (length posts) @
                                   '' posts from r/'' @ subreddit_name) w2)))))"

section \<open>The Batch Aggregator: \<^verbatim>\<open>scrape_multiple_subreddits\<close>\<close>

text \<open>The loop of lines 89 to 95, \<open>all_posts\<close> being the list it extends.\<close>

fun scrape_loop :: "('s, 'h) env \<Rightarrow> 's world \<Rightarrow> string list \<Rightarrow> int \<Rightarrow> string \<Rightarrow> pydict list \<Rightarrow> (exn + pydict list) \<times> 's world" where
  "scrape_loop E w [] limit time_filter all_posts = (Inr all_posts, w)"
| "scrape_loop E w (subreddit # rest) limit time_filter all_posts =
     (case get_top_posts E (print (''Scraping r/'' @ subreddit @ ''...'') w) subreddit limit time_filter of
        (Inl e, w1) \<Rightarrow> (Inl e, w1)
      | (Inr posts, w1) \<Rightarrow> scrape_loop E (sleep 2 w1) rest limit time_filter (all_posts @ posts))"

definition scrape_multiple_subreddits :: "('s, 'h) env \<Rightarrow> 's world \<Rightarrow> string list \<Rightarrow> int \<Rightarrow> string \<Rightarrow> (exn + dataframe) \<times> 's world" where
  "scrape_multiple_subreddits E w subreddit_list limit time_filter =
     (case scrape_loop E w subreddit_list limit time_filter [] of
        (Inl e, w1) \<Rightarrow> (Inl e, w1)
      | (Inr all_posts, w1) \<Rightarrow>
          if all_posts \<noteq> [] then (Inr (DataFrame all_posts), w1)
          else (Inr DataFrame_empty, print ''No posts were collected.'' w1))"

section \<open>The Exporter: \<^verbatim>\<open>save_to_excel\<close> and \<^verbatim>\<open>save_to_csv\<close>\<close>

definition save_to_excel :: "('s, 'h) env \<Rightarrow> 's world \<Rightarrow> dataframe \<Rightarrow> string option \<Rightarrow> (exn + string option) \<times> 's world" where
  "save_to_excel E w df output_file =
     (if df_empty df then (Inr None, print ''No data to save.'' w)
      else
        let output_file =
              (case output_file of
                 None \<Rightarrow> ''reddit_top_posts_'' @ strftime_Ymd_HMS (datetime_now E) @ ''.xlsx''
               | Some f \<Rightarrow> f);
            output_dir = dirname output_file
        in (case (if output_dir \<noteq> [] \<and> \<not> path_exists w output_dir
                  then (case os_makedirs E output_dir of
                          Some e \<Rightarrow> Inl e
                        | None \<Rightarrow> Inr (w\<lparr>dirs := insert output_dir (dirs w)\<rparr>))
                  else Inr w) of
              Inl e \<Rightarrow> (Inl e, w)
            | Inr w1 \<Rightarrow>
                (case to_file E Xlsx output_file df of
                   Some e \<Rightarrow> (Inl e, w1)
                 | None \<Rightarrow>
                     (Inr (Some output_file),
                      print (''Data saved to '' @ output_file)
                        (w1\<lparr>files := (files w1)(output_file \<mapsto> (Xlsx, table_rows False df))\<rparr>)))))"

definition save_to_csv :: "('s, 'h) env \<Rightarrow> 's world \<Rightarrow> dataframe \<Rightarrow> string option \<Rightarrow> (exn + string option) \<times> 's world" where
  "save_to_csv E w df output_file =
     (if df_empty df then (Inr None, print ''No data to save.'' w)
      else
        let output_file =
              (case output_file of
                 None \<Rightarrow> ''reddit_top_posts_'' @ strftime_Ymd_HMS (datetime_now E) @ ''.csv''
               | Some f \<Rightarrow> f);
            output_dir = dirname output_file
        in (case (if output_dir \<noteq> [] \<and> \<not> path_exists w output_dir
                  then (case os_makedirs E output_dir of
                          Some e \<Rightarrow> Inl e
                        | None \<Rightarrow> Inr (w\<lparr>dirs := insert output_dir (dirs w)\<rparr>))
                  else Inr w) of
              Inl e \<Rightarrow> (Inl e, w)
            | Inr w1 \<Rightarrow>
                (case to_file E Csv output_file df of
                   Some e \<Rightarrow> (Inl e, w1)
                 | None \<Rightarrow>
                     (Inr (Some output_file),
                      print (''Data saved to '' @ output_file)
                        (w1\<lparr>files := (files w1)(output_file \<mapsto> (Csv, table_rows False df))\<rparr>)))))"

section \<open>\<^verbatim>\<open>main\<close>\<close>

text \<open>
  The arguments as \<^verbatim>\<open>parse_args\<close> returns them (line 187); the credentials and the user
  agent go to the constructor of the client, which the environment stands for.
\<close>

record args =
  arg_subreddits :: "string list"
  arg_limit :: int
  arg_time_filter :: string
  arg_output :: "string option"

text \<open>
  Lines 204 to 214. \<^verbatim>\<open>if args.output\<close> is false for \<^verbatim>\<open>None\<close> and for the empty string.
\<close>

definition save_results :: "('s, 'h) env \<Rightarrow> 's world \<Rightarrow> dataframe \<Rightarrow> string option \<Rightarrow> (exn + string option) \<times> 's world" where
  "save_results E w df output =
     (case output of
        None \<Rightarrow> save_to_excel E w df None
      | Some out \<Rightarrow>
          if out \<noteq> [] then
            (if endswith out ''.xlsx'' then save_to_excel E w df (Some out)
             else if endswith out ''.csv'' then save_to_csv E w df (Some out)
             else save_to_csv E (print ''Unsupported output format. Using CSV format.'' w) df
                    (Some (out @ ''.csv'')))
          else save_to_excel E w df None)"

text \<open>
  Lines 196 to 214: \<^verbatim>\<open>main\<close> has no handler, so an exception that reaches it leaves it.
\<close>

definition main :: "('s, 'h) env \<Rightarrow> 's world \<Rightarrow> args \<Rightarrow> (exn + unit) \<times> 's world" where
  "main E w a =
     (case scrape_multiple_subreddits E w (arg_subreddits a) (arg_limit a) (arg_time_filter a) of
        (Inl e, w1) \<Rightarrow> (Inl e, w1)
      | (Inr df, w1) \<Rightarrow>
          (case save_results E w1 df (arg_output a) of
             (Inl e, w2) \<Rightarrow> (Inl e, w2)
           | (Inr _, w2) \<Rightarrow> (Inr (), w2)))"

text \<open>
  The exit status of the interpreter: 0 when \<^verbatim>\<open>main\<close> returns, 1 when an exception
  leaves it.
\<close>

definition exit_status :: "(exn + unit) \<times> 's world \<Rightarrow> nat" where
  "exit_status r = (case fst r of Inl e \<Rightarrow> 1 | Inr u \<Rightarrow> 0)"

section \<open>Notions the properties are stated with\<close>

text \<open>
  The keys of the dict of lines 42 to 64 in the order the code inserts them. The data
  model of the specification lists the same eleven fields in this order, under the names
  \<open>forum_name\<close>, \<open>post_id\<close>, \<open>title\<close>, \<open>score\<close>, \<open>comment_count\<close>, \<open>created_at\<close>,
  \<open>external_url\<close>, \<open>permalink\<close>, \<open>is_text_post\<close>, \<open>body_text\<close>, \<open>author_name\<close>.
\<close>

definition post_data_keys :: "string list" where
  "post_data_keys =
     [''subreddit'', ''post_id'', ''title'', ''score'', ''num_comments'', ''created_utc'',
      ''url'', ''permalink'', ''is_self_post'', ''selftext'', ''author'']"

text \<open>
  The specification's side of the aggregation property: the record lists that the calls of
  \<^verbatim>\<open>get_top_posts\<close> return, one per forum name in the order of the input list, each call
  made in the world the run has reached. An exception that leaves a call ends the run.
\<close>

fun fetch_each :: "('s, 'h) env \<Rightarrow> 's world \<Rightarrow> string list \<Rightarrow> int \<Rightarrow> string \<Rightarrow> exn + pydict list list" where
  "fetch_each E w [] limit time_filter = Inr []"
| "fetch_each E w (subreddit # rest) limit time_filter =
     (case get_top_posts E (print (''Scraping r/'' @ subreddit @ ''...'') w) subreddit limit time_filter of
        (Inl e, w1) \<Rightarrow> Inl e
      | (Inr posts, w1) \<Rightarrow>
          (case fetch_each E (sleep 2 w1) rest limit time_filter of
             Inl e \<Rightarrow> Inl e
           | Inr per_forum \<Rightarrow> Inr (posts # per_forum)))"

text \<open>
  The pattern \<^verbatim>\<open>YYYYMMDD_HHMMSS\<close>: fifteen characters, an underscore at position 8 and
  decimal digits elsewhere. \<open>nat_of_digits\<close> reads a run of digits back as a number.
\<close>

definition is_digit :: "char \<Rightarrow> bool" where
  "is_digit c = (c \<in> set ''0123456789'')"

definition matches_YYYYMMDD_HHMMSS :: "string \<Rightarrow> bool" where
  "matches_YYYYMMDD_HHMMSS s =
     (length s = 15 \<and> list_all is_digit (take 8 s) \<and> s ! 8 = CHR ''_'' \<and>
      list_all is_digit (drop 9 s))"

definition digit_value :: "char \<Rightarrow> nat" where
  "digit_value c = of_char c - 48"

definition nat_of_digits :: "string \<Rightarrow> nat" where
  "nat_of_digits s = foldl (\<lambda>a c. 10 * a + digit_value c) 0 s"

text \<open>
  The values a \<^verbatim>\<open>datetime\<close> can hold from the year 1000 on, where \<^verbatim>\<open>%Y\<close> has four
  digits.
\<close>

definition four_digit_datetime :: "datetime \<Rightarrow> bool" where
  "four_digit_datetime t =
     (1000 \<le> dt_year t \<and> dt_year t \<le> 9999 \<and> 1 \<le> dt_month t \<and> dt_month t \<le> 12 \<and>
      1 \<le> dt_day t \<and> dt_day t \<le> 31 \<and> dt_hour t < 24 \<and> dt_minute t < 60 \<and> dt_second t < 60)"

text \<open>
  The field names of the data model as the specification writes them (its section 3), in
  its order. Seven of the eleven differ from the keys of the code.
\<close>

definition spec_field_names :: "string list" where
  "spec_field_names =
     [''forum_name'', ''post_id'', ''title'', ''score'', ''comment_count'', ''created_at'',
      ''external_url'', ''permalink'', ''is_text_post'', ''body_text'', ''author_name'']"

text \<open>
  What it is for a run not to raise outside the handler of \<^verbatim>\<open>get_top_posts\<close>, said of the
  calls that the run makes and of no others.

  \<open>handles_return\<close>: every call of \<^verbatim>\<open>self.reddit.subreddit\<close> that the batch makes
  returns a handle. The batch makes them one forum after the other, each in the state the
  collaborator has reached, a listing being requested between two of them.
\<close>

fun handles_return :: "('s, 'h) env \<Rightarrow> 's \<Rightarrow> string list \<Rightarrow> int \<Rightarrow> string \<Rightarrow> bool" where
  "handles_return E s [] limit time_filter = True"
| "handles_return E s (subreddit_name # rest) limit time_filter =
     (case reddit_subreddit E s subreddit_name of
        (Inl e, s1) \<Rightarrow> False
      | (Inr subreddit, s1) \<Rightarrow>
          handles_return E (snd (subreddit_top E s1 subreddit time_filter limit)) rest limit
            time_filter)"

text \<open>
  \<open>destination\<close>: the path an export of the given kind writes to, the one it is given
  or the timestamped default (lines 121 to 123 and 151 to 153).
  \<open>makedirs_returns\<close>: the call of \<^verbatim>\<open>os.makedirs\<close> for that path returns, where the
  export makes it (lines 126 to 128 and 156 to 158).
\<close>

definition destination :: "('s, 'h) env \<Rightarrow> file_kind \<Rightarrow> string option \<Rightarrow> string" where
  "destination E kind output_file =
     (case output_file of
        None \<Rightarrow> ''reddit_top_posts_'' @ strftime_Ymd_HMS (datetime_now E) @
                 (case kind of Xlsx \<Rightarrow> ''.xlsx'' | Csv \<Rightarrow> ''.csv'')
      | Some f \<Rightarrow> f)"

definition makedirs_returns :: "('s, 'h) env \<Rightarrow> 's world \<Rightarrow> string \<Rightarrow> bool" where
  "makedirs_returns E w output_file =
     (dirname output_file = [] \<or> path_exists w (dirname output_file) \<or>
      os_makedirs E (dirname output_file) = None)"

text \<open>
  \<open>export_target\<close>: the kind and the argument of the export that \<^verbatim>\<open>main\<close> calls for a
  value of \<^verbatim>\<open>--output\<close> (lines 204 to 214).
  \<open>export_returns\<close>: the export step of a run of \<^verbatim>\<open>main\<close> with the frame \<open>df\<close> does
  not raise: the frame is empty, so that nothing is written, or the call of
  \<^verbatim>\<open>os.makedirs\<close>, where made, and the call of the writer of that kind for that path and
  that frame return.
\<close>

definition export_target :: "string option \<Rightarrow> file_kind \<times> string option" where
  "export_target output =
     (case output of
        None \<Rightarrow> (Xlsx, None)
      | Some out \<Rightarrow>
          if out \<noteq> [] then
            (if endswith out ''.xlsx'' then (Xlsx, Some out)
             else if endswith out ''.csv'' then (Csv, Some out)
             else (Csv, Some (out @ ''.csv'')))
          else (Xlsx, None))"

definition export_returns :: "('s, 'h) env \<Rightarrow> 's world \<Rightarrow> dataframe \<Rightarrow> string option \<Rightarrow> bool" where
  "export_returns E w df output =
     (df_empty df \<or>
      (case export_target output of
         (kind, output_file) \<Rightarrow>
           makedirs_returns E w (destination E kind output_file) \<and>
           to_file E kind (destination E kind output_file) df = None))"

section \<open>Concrete inputs\<close>

text \<open>
  A link post whose account is gone and which carries stray body text, and a text post
  with its author.
\<close>

definition demo_link_post :: raw_post where
  "demo_link_post =
     \<lparr>post_id = ''a1'', post_title = ''Release notes'', post_score = 120,
      post_num_comments = 14, post_created_utc = 1700000000,
      post_url = ''https://example.org/notes'',
      post_permalink = ''/r/python/comments/a1/release_notes/'',
      post_is_self = False, post_selftext = ''stray text'', post_author = None\<rparr>"

definition demo_self_post :: raw_post where
  "demo_self_post =
     \<lparr>post_id = ''b2'', post_title = ''Question'', post_score = 7,
      post_num_comments = 3, post_created_utc = 1700003600,
      post_url = ''https://www.reddit.com/r/python/comments/b2/question/'',
      post_permalink = ''/r/python/comments/b2/question/'',
      post_is_self = True, post_selftext = ''How do I do this?'', post_author = Some ''alice''\<rparr>"

definition demo_now :: datetime where
  "demo_now = \<lparr>dt_year = 2026, dt_month = 11, dt_day = 4, dt_hour = 9, dt_minute = 5, dt_second = 7\<rparr>"

definition demo_fromtimestamp :: "int \<Rightarrow> exn + datetime" where
  "demo_fromtimestamp t =
     (if 0 \<le> t \<and> t < 253402300800
      then Inr \<lparr>dt_year = 2023, dt_month = 11, dt_day = 14, dt_hour = 22, dt_minute = 13,
                dt_second = nat (t mod 60)\<rparr>
      else Inl (Exn ''year is out of range''))"

text \<open>The records of the two posts when they come from the forum \<open>name\<close>.\<close>

definition demo_link_record :: "string \<Rightarrow> pydict" where
  "demo_link_record name =
     [(''subreddit'', PyStr name), (''post_id'', PyStr ''a1''),
      (''title'', PyStr ''Release notes''), (''score'', PyInt 120),
      (''num_comments'', PyInt 14),
      (''created_utc'', PyDatetime \<lparr>dt_year = 2023, dt_month = 11, dt_day = 14, dt_hour = 22,
         dt_minute = 13, dt_second = 20\<rparr>),
      (''url'', PyStr ''https://example.org/notes''),
      (''permalink'', PyStr ''https://www.reddit.com/r/python/comments/a1/release_notes/''),
      (''is_self_post'', PyBool False), (''selftext'', PyStr ''''),
      (''author'', PyStr ''[deleted]'')]"

definition demo_self_record :: "string \<Rightarrow> pydict" where
  "demo_self_record name =
     [(''subreddit'', PyStr name), (''post_id'', PyStr ''b2''),
      (''title'', PyStr ''Question''), (''score'', PyInt 7),
      (''num_comments'', PyInt 3),
      (''created_utc'', PyDatetime \<lparr>dt_year = 2023, dt_month = 11, dt_day = 14, dt_hour = 22,
         dt_minute = 13, dt_second = 20\<rparr>),
      (''url'', PyStr ''https://www.reddit.com/r/python/comments/b2/question/''),
      (''permalink'', PyStr ''https://www.reddit.com/r/python/comments/b2/question/''),
      (''is_self_post'', PyBool True), (''selftext'', PyStr ''How do I do this?''),
      (''author'', PyStr ''alice'')]"

text \<open>
  An environment whose collaborator state counts the requests. The forum \<^verbatim>\<open>python\<close>
  lists two posts; \<^verbatim>\<open>flaky\<close> yields one post and then fails; any other forum is unknown
  to the platform. The name \<^verbatim>\<open>random\<close> is resolved by a request of its own when the handle
  is taken, and that request is refused. Writing under \<^verbatim>\<open>readonly\<close> is refused.
\<close>

definition demo_env :: "(nat, string) env" where
  "demo_env =
     \<lparr>reddit_subreddit = (\<lambda>s name.
        if name = ''random'' then (Inl (Exn ''received 401 HTTP response''), Suc s)
        else (Inr name, s)),
      subreddit_top = (\<lambda>s h time_filter limit.
        if h = ''python'' then (([demo_link_post, demo_self_post], None), Suc s)
        else if h = ''flaky'' then (([demo_link_post], Some (Exn ''Connection timed out'')), Suc s)
        else (([], Some (Exn ''received 404 HTTP response'')), Suc s)),
      fromtimestamp = demo_fromtimestamp,
      datetime_now = demo_now,
      os_makedirs = (\<lambda>p. None),
      to_file = (\<lambda>k p df.
        if p = ''readonly/out.csv'' then Some (Exn ''Permission denied'') else None)\<rparr>"

definition demo_world :: "nat world" where
  "demo_world = \<lparr>api = 0, console = [], files = Map.empty, dirs = {''readonly''}, slept = 0\<rparr>"

definition demo_args :: "string list \<Rightarrow> string option \<Rightarrow> args" where
  "demo_args names out =
     \<lparr>arg_subreddits = names, arg_limit = 25, arg_time_filter = ''week'', arg_output = out\<rparr>"

section \<open>Properties of the Post Record Builder\<close>

lemma build_post_data_keys:
  "build_post_data fts name post = Inr d \<Longrightarrow> map fst d = post_data_keys"
  by (auto simp: build_post_data_def post_data_keys_def Let_def split: sum.splits option.splits if_splits)

text \<open>
  Claim C7. The record built from a raw post whose \<^verbatim>\<open>author\<close> is absent has the
  literal text \<^verbatim>\<open>[deleted]\<close> under the key \<^verbatim>\<open>author\<close>; when the author is present, the
  key holds the author's name.
\<close>

theorem author_name_placeholder:
  assumes "build_post_data fts subreddit_name post = Inr d"
  shows "(post_author post = None \<longrightarrow> dict_get d ''author'' = Some (PyStr ''[deleted]'')) \<and>
         (\<forall>name. post_author post = Some name \<longrightarrow> dict_get d ''author'' = Some (PyStr name))"
  using assms
  by (auto simp: build_post_data_def Let_def split: sum.splits option.splits if_splits)

lemma build_demo_link_post:
  "build_post_data demo_fromtimestamp name demo_link_post = Inr (demo_link_record name)"
  by (simp add: build_post_data_def demo_fromtimestamp_def demo_link_post_def demo_link_record_def)

lemma build_demo_self_post:
  "build_post_data demo_fromtimestamp name demo_self_post = Inr (demo_self_record name)"
  by (simp add: build_post_data_def demo_fromtimestamp_def demo_self_post_def demo_self_record_def)

theorem author_name_placeholder_witness:
  "(\<exists>d. build_post_data demo_fromtimestamp ''python'' demo_link_post = Inr d \<and>
        post_author demo_link_post = None \<and>
        dict_get d ''author'' = Some (PyStr ''[deleted]'')) \<and>
   (\<exists>d. build_post_data demo_fromtimestamp ''python'' demo_self_post = Inr d \<and>
        post_author demo_self_post = Some ''alice'' \<and>
        dict_get d ''author'' = Some (PyStr ''alice''))"
proof -
  have a: "post_author demo_link_post = None" by (simp add: demo_link_post_def)
  have b: "post_author demo_self_post = Some ''alice''" by (simp add: demo_self_post_def)
  show ?thesis
    using author_name_placeholder [OF build_demo_link_post [of "''python''"]]
      author_name_placeholder [OF build_demo_self_post [of "''python''"]] a b
    by (simp add: build_demo_link_post build_demo_self_post)
qed

text \<open>
  Claim C8. The record built from a raw post whose self-post flag is false has the empty
  text under the key \<^verbatim>\<open>selftext\<close>, whatever body text the raw post carries; when the
  flag is true, the key holds the raw post's body text.
\<close>

theorem body_text_empty_unless_self:
  assumes "build_post_data fts subreddit_name post = Inr d"
  shows "(\<not> post_is_self post \<longrightarrow> dict_get d ''selftext'' = Some (PyStr '''')) \<and>
         (post_is_self post \<longrightarrow> dict_get d ''selftext'' = Some (PyStr (post_selftext post)))"
  using assms
  by (auto simp: build_post_data_def Let_def split: sum.splits option.splits if_splits)

theorem body_text_empty_unless_self_witness:
  "(\<exists>d. build_post_data demo_fromtimestamp ''python'' demo_link_post = Inr d \<and>
        \<not> post_is_self demo_link_post \<and> post_selftext demo_link_post = ''stray text'' \<and>
        dict_get d ''selftext'' = Some (PyStr '''')) \<and>
   (\<exists>d. build_post_data demo_fromtimestamp ''python'' demo_self_post = Inr d \<and>
        post_is_self demo_self_post \<and>
        dict_get d ''selftext'' = Some (PyStr ''How do I do this?''))"
proof -
  have a: "\<not> post_is_self demo_link_post" "post_selftext demo_link_post = ''stray text''"
    by (simp_all add: demo_link_post_def)
  have b: "post_is_self demo_self_post" "post_selftext demo_self_post = ''How do I do this?''"
    by (simp_all add: demo_self_post_def)
  show ?thesis
    using body_text_empty_unless_self [OF build_demo_link_post [of "''python''"]]
      body_text_empty_unless_self [OF build_demo_self_post [of "''python''"]] a b
    by (simp add: build_demo_link_post build_demo_self_post)
qed

section \<open>Properties of the Forum Fetcher\<close>

lemma get_top_posts_handle_raises:
  "reddit_subreddit E (api w) subreddit_name = (Inl e, s1) \<Longrightarrow>
   get_top_posts E w subreddit_name limit time_filter = (Inl e, w\<lparr>api := s1\<rparr>)"
  by (simp add: get_top_posts_def)

lemma get_top_posts_listing_raises:
  assumes "reddit_subreddit E (api w) subreddit_name = (Inr subreddit, s1)"
      and "subreddit_top E s1 subreddit time_filter limit = ((yielded, Some e), s2)"
  shows "\<exists>e'. get_top_posts E w subreddit_name limit time_filter =
           (Inr [], print (''Error scraping r/'' @ subreddit_name @ '': '' @ str_exn e') (w\<lparr>api := s2\<rparr>))"
  using assms by (auto simp: get_top_posts_def Let_def split: sum.splits)

text \<open>
  Claim C10. When the handle of the forum has been taken and the iteration of the listing
  ends with an exception after it has yielded some posts, \<^verbatim>\<open>get_top_posts\<close> returns the
  empty list: the records built so far are dropped, and one line that starts with
  \<^verbatim>\<open>Error scraping r/\<close> is printed.
\<close>

theorem partial_listing_discarded:
  assumes "reddit_subreddit E (api w) subreddit_name = (Inr subreddit, s1)"
      and "subreddit_top E s1 subreddit time_filter limit = ((yielded, Some e), s2)"
  shows "fst (get_top_posts E w subreddit_name limit time_filter) = Inr [] \<and>
         (\<exists>e'. snd (get_top_posts E w subreddit_name limit time_filter) =
            print (''Error scraping r/'' @ subreddit_name @ '': '' @ str_exn e') (w\<lparr>api := s2\<rparr>))"
  using get_top_posts_listing_raises [OF assms] by auto

lemma demo_flaky_handle:
  "reddit_subreddit demo_env (api demo_world) ''flaky'' = (Inr ''flaky'', 0)"
  by (simp add: demo_env_def demo_world_def)

lemma demo_flaky_listing:
  "subreddit_top demo_env 0 ''flaky'' ''week'' 25 =
     (([demo_link_post], Some (Exn ''Connection timed out'')), Suc 0)"
  by (simp add: demo_env_def)

theorem partial_listing_discarded_witness:
  "reddit_subreddit demo_env (api demo_world) ''flaky'' = (Inr ''flaky'', 0) \<and>
   subreddit_top demo_env 0 ''flaky'' ''week'' 25 =
     (([demo_link_post], Some (Exn ''Connection timed out'')), Suc 0) \<and>
   (\<exists>d. collect_posts (fromtimestamp demo_env) ''flaky'' [demo_link_post] [] = Inr [d]) \<and>
   fst (get_top_posts demo_env demo_world ''flaky'' 25 ''week'') = Inr []"
proof -
  have "\<exists>d. collect_posts (fromtimestamp demo_env) ''flaky'' [demo_link_post] [] = Inr [d]"
    by (simp add: demo_env_def build_demo_link_post)
  then show ?thesis
    using partial_listing_discarded [OF demo_flaky_handle demo_flaky_listing]
      demo_flaky_handle demo_flaky_listing
    by simp
qed


section \<open>An exception of line 36\<close>

text \<open>
  The exceptions that leave \<^verbatim>\<open>get_top_posts\<close> are those of the call of line 36, and no
  others: whatever the listing or the loop body raises is caught.
\<close>

lemma get_top_posts_raises_iff:
  "fst (get_top_posts E w subreddit_name limit time_filter) = Inl e \<longleftrightarrow>
   fst (reddit_subreddit E (api w) subreddit_name) = Inl e"
proof (cases "reddit_subreddit E (api w) subreddit_name")
  case (Pair r s1)
  show ?thesis
  proof (cases r)
    case (Inl e')
    with Pair show ?thesis by (simp add: get_top_posts_def)
  next
    case (Inr h)
    obtain yielded raised s2 where top: "subreddit_top E s1 h time_filter limit = ((yielded, raised), s2)"
      by (metis surj_pair)
    show ?thesis
    proof (cases "collect_posts (fromtimestamp E) subreddit_name yielded []")
      case (Inl e')
      with Pair Inr top show ?thesis by (simp add: get_top_posts_def)
    next
      case built: (Inr posts)
      with Pair Inr top show ?thesis by (cases raised) (simp_all add: get_top_posts_def)
    qed
  qed
qed

text \<open>
  Claim C1 says that every error of the API collaborator during a fetch is caught in
  \<^verbatim>\<open>get_top_posts\<close>, reported, and turned into an empty list, so that the batch goes on.
  The call \<^verbatim>\<open>self.reddit.subreddit(subreddit_name)\<close> of line 36 stands before the
  \<^verbatim>\<open>try\<close>. At the forum name \<^verbatim>\<open>random\<close>, with a collaborator that refuses the request
  by which it resolves that name, the exception leaves \<^verbatim>\<open>get_top_posts\<close> with nothing
  printed by it, and leaves \<^verbatim>\<open>scrape_multiple_subreddits\<close> before the forum \<^verbatim>\<open>python\<close>
  is asked for; \<^verbatim>\<open>main\<close> ends with the exit status 1.
\<close>

theorem handle_error_leaves_get_top_posts:
  "fst (get_top_posts demo_env demo_world ''random'' 25 ''week'') =
     Inl (Exn ''received 401 HTTP response'') \<and>
   console (snd (get_top_posts demo_env demo_world ''random'' 25 ''week'')) = [] \<and>
   fst (scrape_multiple_subreddits demo_env demo_world [''random'', ''python''] 25 ''week'') =
     Inl (Exn ''received 401 HTTP response'') \<and>
   console (snd (scrape_multiple_subreddits demo_env demo_world [''random'', ''python''] 25 ''week'')) =
     [''Scraping r/random...''] \<and>
   exit_status (main demo_env demo_world (demo_args [''random'', ''python''] None)) = 1"
  by (simp add: get_top_posts_def scrape_multiple_subreddits_def main_def exit_status_def
      demo_args_def demo_env_def demo_world_def print_def)

section \<open>Properties of the Exporter\<close>

text \<open>
  Claim C6. For an empty frame both \<^verbatim>\<open>save_to_excel\<close> and \<^verbatim>\<open>save_to_csv\<close> print the
  line \<^verbatim>\<open>No data to save.\<close>, return \<^verbatim>\<open>None\<close> as the path, and leave the files and the
  directories as they were.
\<close>

theorem export_of_empty_writes_nothing:
  assumes "df_empty df"
  shows "save_to_excel E w df output_file = (Inr None, print ''No data to save.'' w) \<and>
         save_to_csv E w df output_file = (Inr None, print ''No data to save.'' w) \<and>
         files (print ''No data to save.'' w) = files w \<and>
         dirs (print ''No data to save.'' w) = dirs w \<and>
         console (print ''No data to save.'' w) = console w @ [''No data to save.'']"
  using assms by (simp add: save_to_excel_def save_to_csv_def print_def)

theorem export_of_empty_writes_nothing_witness:
  "df_empty DataFrame_empty \<and>
   save_to_excel demo_env demo_world DataFrame_empty (Some ''out.xlsx'') =
     (Inr None, print ''No data to save.'' demo_world) \<and>
   save_to_csv demo_env demo_world DataFrame_empty None =
     (Inr None, print ''No data to save.'' demo_world) \<and>
   files (print ''No data to save.'' demo_world) ''out.xlsx'' = None"
proof -
  have e: "df_empty DataFrame_empty" by (simp add: df_empty_def DataFrame_empty_def)
  show ?thesis
    using e export_of_empty_writes_nothing [OF e, of demo_env demo_world "Some ''out.xlsx''"]
      export_of_empty_writes_nothing [OF e, of demo_env demo_world None]
    by (simp add: demo_world_def)
qed

section \<open>The fetcher on the concrete environment\<close>

lemma get_top_posts_demo_python:
  "get_top_posts demo_env w ''python'' limit time_filter =
     (Inr [demo_link_record ''python'', demo_self_record ''python''],
      print ''Successfully scraped 2 posts from r/python'' (w\<lparr>api := Suc (api w)\<rparr>))"
  by (simp add: get_top_posts_def demo_env_def build_demo_link_post build_demo_self_post
      str_nat.simps digit_char_def)

lemma get_top_posts_demo_flaky:
  "get_top_posts demo_env w ''flaky'' limit time_filter =
     (Inr [], print ''Error scraping r/flaky: Connection timed out'' (w\<lparr>api := Suc (api w)\<rparr>))"
  by (simp add: get_top_posts_def demo_env_def build_demo_link_post)

lemma get_top_posts_demo_nosuch:
  "get_top_posts demo_env w ''nosuch'' limit time_filter =
     (Inr [], print ''Error scraping r/nosuch: received 404 HTTP response'' (w\<lparr>api := Suc (api w)\<rparr>))"
  by (simp add: get_top_posts_def demo_env_def)

lemma scrape_loop_demo_repeat:
  "fst (scrape_loop demo_env demo_world [''flaky'', ''python'', ''python''] 25 ''week'' []) =
     Inr [demo_link_record ''python'', demo_self_record ''python'',
          demo_link_record ''python'', demo_self_record ''python'']"
  by (simp add: get_top_posts_demo_python get_top_posts_demo_flaky)

lemma fetch_each_demo_repeat:
  "fetch_each demo_env demo_world [''flaky'', ''python'', ''python''] 25 ''week'' =
     Inr [[], [demo_link_record ''python'', demo_self_record ''python''],
          [demo_link_record ''python'', demo_self_record ''python'']]"
  by (simp add: get_top_posts_demo_python get_top_posts_demo_flaky)

lemma fetch_each_demo_empty:
  "fetch_each demo_env demo_world [''flaky'', ''nosuch''] 25 ''week'' = Inr [[], []]"
  by (simp add: get_top_posts_demo_nosuch get_top_posts_demo_flaky)


section \<open>The frame of a list of records\<close>

lemma dict_get_not_key: "k \<notin> fst ` set d \<Longrightarrow> dict_get d k = None"
  by (induction d) auto

lemma dict_get_own_keys:
  "distinct (map fst d) \<Longrightarrow> map (dict_get d) (map fst d) = map (\<lambda>(k, v). Some v) d"
proof (induction d)
  case Nil
  show ?case by simp
next
  case (Cons kv d)
  obtain k v where kv: "kv = (k, v)" by (cases kv)
  from Cons.prems kv have fresh: "k \<notin> fst ` set d" and dist: "distinct (map fst d)"
    by auto
  have "map (dict_get ((k, v) # d)) (map fst d) = map (dict_get d) (map fst d)"
    using fresh by (intro map_cong) auto
  with Cons.IH [OF dist] kv show ?case by simp
qed

lemma add_keys_fresh: "distinct (cols @ ks) \<Longrightarrow> add_keys cols ks = cols @ ks"
  by (induction ks arbitrary: cols) auto

lemma add_keys_known: "set ks \<subseteq> set cols \<Longrightarrow> add_keys cols ks = cols"
  by (induction ks arbitrary: cols) auto

lemma columns_of_known:
  "\<forall>d\<in>set ds. set (map fst d) \<subseteq> set cols \<Longrightarrow> columns_of cols ds = cols"
  by (induction ds arbitrary: cols) (auto simp: add_keys_known)

lemma distinct_post_data_keys: "distinct post_data_keys"
  by (simp add: post_data_keys_def)

lemma length_post_data_keys: "length post_data_keys = 11"
  by (simp add: post_data_keys_def)

lemma columns_of_records:
  assumes "records \<noteq> []" and "\<forall>d\<in>set records. map fst d = post_data_keys"
  shows "columns_of [] records = post_data_keys"
proof (cases records)
  case Nil
  with assms show ?thesis by simp
next
  case (Cons d ds)
  with assms have d: "map fst d = post_data_keys" and ds: "\<forall>d\<in>set ds. map fst d = post_data_keys"
    by auto
  have "add_keys [] (map fst d) = post_data_keys"
    using add_keys_fresh [of "[]" post_data_keys] distinct_post_data_keys d by simp
  moreover have "columns_of post_data_keys ds = post_data_keys"
    using ds by (intro columns_of_known) auto
  ultimately show ?thesis using Cons by simp
qed

lemma DataFrame_of_records:
  assumes "records \<noteq> []" and "\<forall>d\<in>set records. map fst d = post_data_keys"
  shows "DataFrame records =
           \<lparr>df_columns = post_data_keys, df_rows = map (map (\<lambda>(k, v). Some v)) records\<rparr>"
proof -
  have "map (\<lambda>d. map (dict_get d) post_data_keys) records = map (map (\<lambda>(k, v). Some v)) records"
  proof (intro map_cong refl)
    fix d assume "d \<in> set records"
    with assms have d: "map fst d = post_data_keys" by auto
    then have "distinct (map fst d)" using distinct_post_data_keys by simp
    from dict_get_own_keys [OF this] d
    show "map (dict_get d) post_data_keys = map (\<lambda>(k, v). Some v) d" by simp
  qed
  with columns_of_records [OF assms] show ?thesis
    by (simp add: DataFrame_def Let_def)
qed

text \<open>Every record that the fetcher and the aggregator return has the eleven keys.\<close>

lemma collect_posts_keys:
  "collect_posts fts name yielded posts = Inr posts' \<Longrightarrow>
   \<forall>d\<in>set posts. map fst d = post_data_keys \<Longrightarrow>
   \<forall>d\<in>set posts'. map fst d = post_data_keys"
proof (induction yielded arbitrary: posts)
  case Nil
  then show ?case by simp
next
  case (Cons post rest)
  show ?case
  proof (cases "build_post_data fts name post")
    case (Inl e)
    with Cons.prems(1) show ?thesis by simp
  next
    case (Inr post_data)
    with Cons.prems(1) have loop: "collect_posts fts name rest (posts @ [post_data]) = Inr posts'"
      by simp
    have "map fst post_data = post_data_keys"
      using build_post_data_keys [OF Inr] .
    with Cons.prems(2) have "\<forall>d\<in>set (posts @ [post_data]). map fst d = post_data_keys"
      by simp
    from Cons.IH [OF loop this] show ?thesis .
  qed
qed

lemma get_top_posts_keys:
  assumes "get_top_posts E w name limit time_filter = (Inr posts, w')"
  shows "\<forall>d\<in>set posts. map fst d = post_data_keys"
proof (cases "reddit_subreddit E (api w) name")
  case (Pair r s1)
  show ?thesis
  proof (cases r)
    case (Inl e)
    with Pair assms show ?thesis by (simp add: get_top_posts_def)
  next
    case (Inr subreddit)
    obtain yielded raised s2 where top: "subreddit_top E s1 subreddit time_filter limit = ((yielded, raised), s2)"
      by (metis surj_pair)
    show ?thesis
    proof (cases "collect_posts (fromtimestamp E) name yielded []")
      case (Inl e)
      with Pair Inr top assms show ?thesis by (simp add: get_top_posts_def)
    next
      case collected: (Inr built)
      show ?thesis
      proof (cases raised)
        case (Some e)
        with Pair Inr top collected assms show ?thesis by (simp add: get_top_posts_def)
      next
        case None
        with Pair Inr top collected assms have "posts = built" by (simp add: get_top_posts_def)
        with collect_posts_keys [OF collected] show ?thesis by simp
      qed
    qed
  qed
qed

lemma scrape_loop_keys:
  "scrape_loop E w subreddit_list limit time_filter all_posts = (Inr records, w') \<Longrightarrow>
   \<forall>d\<in>set all_posts. map fst d = post_data_keys \<Longrightarrow>
   \<forall>d\<in>set records. map fst d = post_data_keys"
proof (induction subreddit_list arbitrary: w all_posts)
  case Nil
  then show ?case by simp
next
  case (Cons subreddit rest)
  obtain r w1 where g: "get_top_posts E (print (''Scraping r/'' @ subreddit @ ''...'') w) subreddit limit time_filter = (r, w1)"
    by (cases "get_top_posts E (print (''Scraping r/'' @ subreddit @ ''...'') w) subreddit limit time_filter")
  show ?case
  proof (cases r)
    case (Inl e)
    with g Cons.prems show ?thesis by simp
  next
    case (Inr posts)
    with g Cons.prems(1) have loop: "scrape_loop E (sleep 2 w1) rest limit time_filter (all_posts @ posts) = (Inr records, w')"
      by simp
    from g Inr have "\<forall>d\<in>set posts. map fst d = post_data_keys"
      using get_top_posts_keys by blast
    with Cons.prems(2) have "\<forall>d\<in>set (all_posts @ posts). map fst d = post_data_keys" by auto
    from Cons.IH [OF loop this] show ?thesis .
  qed
qed

text \<open>A path that an export returns holds the table of the frame, written without index.\<close>

lemma save_to_excel_written:
  "\<not> df_empty df \<Longrightarrow> save_to_excel E w df output_file = (Inr (Some p), w') \<Longrightarrow>
   files w' p = Some (Xlsx, table_rows False df)"
  by (auto simp: save_to_excel_def Let_def print_def split: if_splits option.splits sum.splits)

lemma save_to_csv_written:
  "\<not> df_empty df \<Longrightarrow> save_to_csv E w df output_file = (Inr (Some p), w') \<Longrightarrow>
   files w' p = Some (Csv, table_rows False df)"
  by (auto simp: save_to_csv_def Let_def print_def split: if_splits option.splits sum.splits)

text \<open>
  An export of a frame that is not empty returns its destination and leaves the table
  there, when \<^verbatim>\<open>os.makedirs\<close>, where called, and the writer return.
\<close>

lemma save_to_excel_writes:
  assumes "\<not> df_empty df"
      and "makedirs_returns E w (destination E Xlsx output_file)"
      and "to_file E Xlsx (destination E Xlsx output_file) df = None"
  shows "fst (save_to_excel E w df output_file) = Inr (Some (destination E Xlsx output_file)) \<and>
         files (snd (save_to_excel E w df output_file)) (destination E Xlsx output_file) =
           Some (Xlsx, table_rows False df) \<and>
         console (snd (save_to_excel E w df output_file)) =
           console w @ [''Data saved to '' @ destination E Xlsx output_file]"
proof (cases output_file)
  case None
  with assms show ?thesis
    by (auto simp: save_to_excel_def destination_def makedirs_returns_def Let_def print_def)
next
  case (Some f)
  with assms show ?thesis
    by (auto simp: save_to_excel_def destination_def makedirs_returns_def Let_def print_def)
qed

lemma save_to_csv_writes:
  assumes "\<not> df_empty df"
      and "makedirs_returns E w (destination E Csv output_file)"
      and "to_file E Csv (destination E Csv output_file) df = None"
  shows "fst (save_to_csv E w df output_file) = Inr (Some (destination E Csv output_file)) \<and>
         files (snd (save_to_csv E w df output_file)) (destination E Csv output_file) =
           Some (Csv, table_rows False df) \<and>
         console (snd (save_to_csv E w df output_file)) =
           console w @ [''Data saved to '' @ destination E Csv output_file]"
proof (cases output_file)
  case None
  with assms show ?thesis
    by (auto simp: save_to_csv_def destination_def makedirs_returns_def Let_def print_def)
next
  case (Some f)
  with assms show ?thesis
    by (auto simp: save_to_csv_def destination_def makedirs_returns_def Let_def print_def)
qed

text \<open>
  Claim C4, with the header as the code writes it. When the records that the aggregator
  has collected are not empty, the frame made of them is not empty, and either export,
  when \<^verbatim>\<open>os.makedirs\<close>, where called, and its writer return, returns its destination and
  writes there: first the header row of the eleven keys of the record, which are
  \<^verbatim>\<open>subreddit\<close>, \<^verbatim>\<open>post_id\<close>, \<^verbatim>\<open>title\<close>, \<^verbatim>\<open>score\<close>, \<^verbatim>\<open>num_comments\<close>,
  \<^verbatim>\<open>created_utc\<close>, \<^verbatim>\<open>url\<close>, \<^verbatim>\<open>permalink\<close>, \<^verbatim>\<open>is_self_post\<close>, \<^verbatim>\<open>selftext\<close>,
  \<^verbatim>\<open>author\<close> in this order, then one row per record in the order of the collection, each
  row with eleven cells and no cell for a row number; \<open>N\<close> records give \<open>N + 1\<close>
  rows. A path that an export returns always holds that table.
\<close>

theorem exported_table_is_header_and_records:
  assumes "fst (scrape_loop E w subreddit_list limit time_filter []) = Inr records"
      and "records \<noteq> []"
  shows "fst (scrape_multiple_subreddits E w subreddit_list limit time_filter) = Inr (DataFrame records) \<and>
         \<not> df_empty (DataFrame records) \<and>
         table_rows False (DataFrame records) =
           map (\<lambda>k. Some (PyStr k)) post_data_keys # map (map (\<lambda>(k, v). Some v)) records \<and>
         length (table_rows False (DataFrame records)) = length records + 1 \<and>
         (\<forall>row\<in>set (table_rows False (DataFrame records)). length row = 11) \<and>
         (\<forall>E' w2 output_file.
            makedirs_returns (E' :: ('s, 'h) env) w2 (destination E' Xlsx output_file) \<and>
            to_file E' Xlsx (destination E' Xlsx output_file) (DataFrame records) = None \<longrightarrow>
            fst (save_to_excel E' w2 (DataFrame records) output_file) =
              Inr (Some (destination E' Xlsx output_file)) \<and>
            files (snd (save_to_excel E' w2 (DataFrame records) output_file))
              (destination E' Xlsx output_file) =
              Some (Xlsx, table_rows False (DataFrame records))) \<and>
         (\<forall>E' w2 output_file.
            makedirs_returns (E' :: ('s, 'h) env) w2 (destination E' Csv output_file) \<and>
            to_file E' Csv (destination E' Csv output_file) (DataFrame records) = None \<longrightarrow>
            fst (save_to_csv E' w2 (DataFrame records) output_file) =
              Inr (Some (destination E' Csv output_file)) \<and>
            files (snd (save_to_csv E' w2 (DataFrame records) output_file))
              (destination E' Csv output_file) =
              Some (Csv, table_rows False (DataFrame records))) \<and>
         (\<forall>E' w2 out p w3. save_to_excel (E' :: ('s, 'h) env) w2 (DataFrame records) out = (Inr (Some p), w3) \<longrightarrow>
            files w3 p = Some (Xlsx, table_rows False (DataFrame records))) \<and>
         (\<forall>E' w2 out p w3. save_to_csv (E' :: ('s, 'h) env) w2 (DataFrame records) out = (Inr (Some p), w3) \<longrightarrow>
            files w3 p = Some (Csv, table_rows False (DataFrame records)))"
proof -
  obtain w1 where loop: "scrape_loop E w subreddit_list limit time_filter [] = (Inr records, w1)"
    using assms(1) by (cases "scrape_loop E w subreddit_list limit time_filter []") simp
  have keys: "\<forall>d\<in>set records. map fst d = post_data_keys"
    using scrape_loop_keys [OF loop] by simp
  have df: "DataFrame records =
      \<lparr>df_columns = post_data_keys, df_rows = map (map (\<lambda>(k, v). Some v)) records\<rparr>"
    using DataFrame_of_records [OF assms(2) keys] .
  have ne: "\<not> df_empty (DataFrame records)"
    using assms(2) by (simp add: df df_empty_def post_data_keys_def)
  have t: "table_rows False (DataFrame records) =
      map (\<lambda>k. Some (PyStr k)) post_data_keys # map (map (\<lambda>(k, v). Some v)) records"
    by (simp add: df table_rows_def)
  have width: "\<forall>row\<in>set (table_rows False (DataFrame records)). length row = 11"
  proof
    fix row assume "row \<in> set (table_rows False (DataFrame records))"
    then consider "row = map (\<lambda>k. Some (PyStr k)) post_data_keys"
      | d where "d \<in> set records" "row = map (\<lambda>(k, v). Some v) d"
      unfolding t by auto
    then show "length row = 11"
    proof cases
      case 1
      then show ?thesis by (simp add: length_post_data_keys)
    next
      case 2
      with keys have "length (map fst d) = 11" by (simp add: length_post_data_keys)
      with 2 show ?thesis by simp
    qed
  qed
  have s: "fst (scrape_multiple_subreddits E w subreddit_list limit time_filter) = Inr (DataFrame records)"
    using loop assms(2) by (simp add: scrape_multiple_subreddits_def)
  have len: "length (table_rows False (DataFrame records)) = length records + 1"
    unfolding t by simp
  have xw: "\<forall>E' w2 output_file.
            makedirs_returns (E' :: ('s, 'h) env) w2 (destination E' Xlsx output_file) \<and>
            to_file E' Xlsx (destination E' Xlsx output_file) (DataFrame records) = None \<longrightarrow>
            fst (save_to_excel E' w2 (DataFrame records) output_file) =
              Inr (Some (destination E' Xlsx output_file)) \<and>
            files (snd (save_to_excel E' w2 (DataFrame records) output_file))
              (destination E' Xlsx output_file) =
              Some (Xlsx, table_rows False (DataFrame records))"
    using save_to_excel_writes [OF ne] by blast
  have cw: "\<forall>E' w2 output_file.
            makedirs_returns (E' :: ('s, 'h) env) w2 (destination E' Csv output_file) \<and>
            to_file E' Csv (destination E' Csv output_file) (DataFrame records) = None \<longrightarrow>
            fst (save_to_csv E' w2 (DataFrame records) output_file) =
              Inr (Some (destination E' Csv output_file)) \<and>
            files (snd (save_to_csv E' w2 (DataFrame records) output_file))
              (destination E' Csv output_file) =
              Some (Csv, table_rows False (DataFrame records))"
    using save_to_csv_writes [OF ne] by blast
  have x: "\<forall>E' w2 out p w3. save_to_excel (E' :: ('s, 'h) env) w2 (DataFrame records) out = (Inr (Some p), w3) \<longrightarrow>
            files w3 p = Some (Xlsx, table_rows False (DataFrame records))"
    using save_to_excel_written [OF ne] by blast
  have c: "\<forall>E' w2 out p w3. save_to_csv (E' :: ('s, 'h) env) w2 (DataFrame records) out = (Inr (Some p), w3) \<longrightarrow>
            files w3 p = Some (Csv, table_rows False (DataFrame records))"
    using save_to_csv_written [OF ne] by blast
  from s ne t len width xw cw x c show ?thesis by (intro conjI)
qed

text \<open>Both exports on the concrete environment, under the directory \<^verbatim>\<open>out\<close>.\<close>

lemma demo_makedirs_out:
  "makedirs_returns demo_env demo_world (destination demo_env Xlsx (Some ''out/posts.xlsx''))"
  "makedirs_returns demo_env demo_world (destination demo_env Csv (Some ''out/posts.csv''))"
  "destination demo_env Xlsx (Some ''out/posts.xlsx'') = ''out/posts.xlsx''"
  "destination demo_env Csv (Some ''out/posts.csv'') = ''out/posts.csv''"
  by (simp_all add: makedirs_returns_def destination_def demo_env_def)

lemma demo_to_file_out:
  "to_file demo_env Xlsx ''out/posts.xlsx'' df = None"
  "to_file demo_env Csv ''out/posts.csv'' df = None"
  by (simp_all add: demo_env_def)

theorem exported_table_is_header_and_records_witness:
  "fst (scrape_loop demo_env demo_world [''flaky'', ''python'', ''python''] 25 ''week'' []) =
     Inr [demo_link_record ''python'', demo_self_record ''python'',
          demo_link_record ''python'', demo_self_record ''python''] \<and>
   makedirs_returns demo_env demo_world (destination demo_env Xlsx (Some ''out/posts.xlsx'')) \<and>
   to_file demo_env Xlsx (destination demo_env Xlsx (Some ''out/posts.xlsx'')) (DataFrame
     [demo_link_record ''python'', demo_self_record ''python'',
      demo_link_record ''python'', demo_self_record ''python'']) = None \<and>
   fst (save_to_excel demo_env demo_world (DataFrame
     [demo_link_record ''python'', demo_self_record ''python'',
      demo_link_record ''python'', demo_self_record ''python'']) (Some ''out/posts.xlsx'')) =
     Inr (Some ''out/posts.xlsx'') \<and>
   files (snd (save_to_excel demo_env demo_world (DataFrame
     [demo_link_record ''python'', demo_self_record ''python'',
      demo_link_record ''python'', demo_self_record ''python'']) (Some ''out/posts.xlsx'')))
     ''out/posts.xlsx'' =
     Some (Xlsx, map (\<lambda>k. Some (PyStr k)) post_data_keys #
       map (map (\<lambda>(k, v). Some v))
         [demo_link_record ''python'', demo_self_record ''python'',
          demo_link_record ''python'', demo_self_record ''python'']) \<and>
   makedirs_returns demo_env demo_world (destination demo_env Csv (Some ''out/posts.csv'')) \<and>
   to_file demo_env Csv (destination demo_env Csv (Some ''out/posts.csv'')) (DataFrame
     [demo_link_record ''python'', demo_self_record ''python'',
      demo_link_record ''python'', demo_self_record ''python'']) = None \<and>
   fst (save_to_csv demo_env demo_world (DataFrame
     [demo_link_record ''python'', demo_self_record ''python'',
      demo_link_record ''python'', demo_self_record ''python'']) (Some ''out/posts.csv'')) =
     Inr (Some ''out/posts.csv'') \<and>
   files (snd (save_to_csv demo_env demo_world (DataFrame
     [demo_link_record ''python'', demo_self_record ''python'',
      demo_link_record ''python'', demo_self_record ''python'']) (Some ''out/posts.csv'')))
     ''out/posts.csv'' =
     Some (Csv, map (\<lambda>k. Some (PyStr k)) post_data_keys #
       map (map (\<lambda>(k, v). Some v))
         [demo_link_record ''python'', demo_self_record ''python'',
          demo_link_record ''python'', demo_self_record ''python'']) \<and>
   length (map (\<lambda>k. Some (PyStr k)) post_data_keys #
       map (map (\<lambda>(k, v). Some v))
         [demo_link_record ''python'', demo_self_record ''python'',
          demo_link_record ''python'', demo_self_record ''python'']) = 5"
proof -
  let ?R = "[demo_link_record ''python'', demo_self_record ''python'',
             demo_link_record ''python'', demo_self_record ''python'']"
  let ?T = "map (\<lambda>k. Some (PyStr k)) post_data_keys # map (map (\<lambda>(k, v). Some v)) ?R"
  have ne: "?R \<noteq> []" by simp
  note r = exported_table_is_header_and_records [OF scrape_loop_demo_repeat ne]
  from r have t: "table_rows False (DataFrame ?R) = ?T"
    by (elim conjE)
  from r have "\<forall>E' w2 output_file.
            makedirs_returns (E' :: (nat, string) env) w2 (destination E' Xlsx output_file) \<and>
            to_file E' Xlsx (destination E' Xlsx output_file) (DataFrame ?R) = None \<longrightarrow>
            fst (save_to_excel E' w2 (DataFrame ?R) output_file) =
              Inr (Some (destination E' Xlsx output_file)) \<and>
            files (snd (save_to_excel E' w2 (DataFrame ?R) output_file))
              (destination E' Xlsx output_file) =
              Some (Xlsx, table_rows False (DataFrame ?R))"
    by (elim conjE)
  then have "makedirs_returns demo_env demo_world (destination demo_env Xlsx (Some ''out/posts.xlsx'')) \<and>
      to_file demo_env Xlsx (destination demo_env Xlsx (Some ''out/posts.xlsx'')) (DataFrame ?R) = None \<longrightarrow>
      fst (save_to_excel demo_env demo_world (DataFrame ?R) (Some ''out/posts.xlsx'')) =
        Inr (Some (destination demo_env Xlsx (Some ''out/posts.xlsx''))) \<and>
      files (snd (save_to_excel demo_env demo_world (DataFrame ?R) (Some ''out/posts.xlsx'')))
        (destination demo_env Xlsx (Some ''out/posts.xlsx'')) =
        Some (Xlsx, table_rows False (DataFrame ?R))"
    by blast
  with demo_makedirs_out demo_to_file_out
  have x: "fst (save_to_excel demo_env demo_world (DataFrame ?R) (Some ''out/posts.xlsx'')) =
        Inr (Some ''out/posts.xlsx'')"
    "files (snd (save_to_excel demo_env demo_world (DataFrame ?R) (Some ''out/posts.xlsx'')))
        ''out/posts.xlsx'' = Some (Xlsx, ?T)"
    by (simp_all add: t)
  from r have "\<forall>E' w2 output_file.
            makedirs_returns (E' :: (nat, string) env) w2 (destination E' Csv output_file) \<and>
            to_file E' Csv (destination E' Csv output_file) (DataFrame ?R) = None \<longrightarrow>
            fst (save_to_csv E' w2 (DataFrame ?R) output_file) =
              Inr (Some (destination E' Csv output_file)) \<and>
            files (snd (save_to_csv E' w2 (DataFrame ?R) output_file))
              (destination E' Csv output_file) =
              Some (Csv, table_rows False (DataFrame ?R))"
    by (elim conjE)
  then have "makedirs_returns demo_env demo_world (destination demo_env Csv (Some ''out/posts.csv'')) \<and>
      to_file demo_env Csv (destination demo_env Csv (Some ''out/posts.csv'')) (DataFrame ?R) = None \<longrightarrow>
      fst (save_to_csv demo_env demo_world (DataFrame ?R) (Some ''out/posts.csv'')) =
        Inr (Some (destination demo_env Csv (Some ''out/posts.csv''))) \<and>
      files (snd (save_to_csv demo_env demo_world (DataFrame ?R) (Some ''out/posts.csv'')))
        (destination demo_env Csv (Some ''out/posts.csv'')) =
        Some (Csv, table_rows False (DataFrame ?R))"
    by blast
  with demo_makedirs_out demo_to_file_out
  have c: "fst (save_to_csv demo_env demo_world (DataFrame ?R) (Some ''out/posts.csv'')) =
        Inr (Some ''out/posts.csv'')"
    "files (snd (save_to_csv demo_env demo_world (DataFrame ?R) (Some ''out/posts.csv'')))
        ''out/posts.csv'' = Some (Csv, ?T)"
    by (simp_all add: t)
  have mx: "makedirs_returns demo_env demo_world (destination demo_env Xlsx (Some ''out/posts.xlsx''))"
    and mc: "makedirs_returns demo_env demo_world (destination demo_env Csv (Some ''out/posts.csv''))"
    by (rule demo_makedirs_out)+
  have fx: "to_file demo_env Xlsx (destination demo_env Xlsx (Some ''out/posts.xlsx'')) (DataFrame ?R) = None"
    and fc: "to_file demo_env Csv (destination demo_env Csv (Some ''out/posts.csv'')) (DataFrame ?R) = None"
    by (simp_all add: demo_makedirs_out demo_to_file_out)
  have len: "length ?T = 5" by simp
  from scrape_loop_demo_repeat mx fx x mc fc c len show ?thesis by (intro conjI)
qed

lemma demo_frame_python:
  "DataFrame [demo_link_record ''python'', demo_self_record ''python''] =
     \<lparr>df_columns = post_data_keys,
      df_rows = map (map (\<lambda>(k, v). Some v)) [demo_link_record ''python'', demo_self_record ''python'']\<rparr>"
proof -
  have "\<forall>d\<in>set [demo_link_record ''python'', demo_self_record ''python'']. map fst d = post_data_keys"
    by (simp add: demo_link_record_def demo_self_record_def post_data_keys_def)
  from DataFrame_of_records [OF _ this] show ?thesis by simp
qed

lemma demo_frame_python_not_empty:
  "\<not> df_empty (DataFrame [demo_link_record ''python'', demo_self_record ''python''])"
  by (simp add: demo_frame_python df_empty_def post_data_keys_def)

lemma hd_table_rows: "hd (table_rows False df) = map (\<lambda>c. Some (PyStr c)) (df_columns df)"
  by (simp add: table_rows_def)

text \<open>
  Claim C4 as stated, with a header row of the field names of the data model: it fails
  on the names. The file that either export writes for the two records of the forum
  \<^verbatim>\<open>python\<close> starts with the keys of the code, and these are not the names
  \<open>forum_name\<close>, \<open>post_id\<close>, \<open>title\<close>, \<open>score\<close>, \<open>comment_count\<close>, \<open>created_at\<close>,
  \<open>external_url\<close>, \<open>permalink\<close>, \<open>is_text_post\<close>, \<open>body_text\<close>, \<open>author_name\<close> of the
  specification.
\<close>

theorem exported_header_is_not_the_spec_names:
  "fst (scrape_loop demo_env demo_world [''python''] 25 ''week'' []) =
     Inr [demo_link_record ''python'', demo_self_record ''python''] \<and>
   fst (save_to_csv demo_env demo_world
          (DataFrame [demo_link_record ''python'', demo_self_record ''python''])
          (Some ''out/posts.csv'')) = Inr (Some ''out/posts.csv'') \<and>
   map_option (\<lambda>(kind, rows). hd rows)
     (files (snd (save_to_csv demo_env demo_world
          (DataFrame [demo_link_record ''python'', demo_self_record ''python''])
          (Some ''out/posts.csv''))) ''out/posts.csv'') =
     Some (map (\<lambda>k. Some (PyStr k))
       [''subreddit'', ''post_id'', ''title'', ''score'', ''num_comments'', ''created_utc'',
        ''url'', ''permalink'', ''is_self_post'', ''selftext'', ''author'']) \<and>
   fst (save_to_excel demo_env demo_world
          (DataFrame [demo_link_record ''python'', demo_self_record ''python''])
          (Some ''out/posts.xlsx'')) = Inr (Some ''out/posts.xlsx'') \<and>
   map_option (\<lambda>(kind, rows). hd rows)
     (files (snd (save_to_excel demo_env demo_world
          (DataFrame [demo_link_record ''python'', demo_self_record ''python''])
          (Some ''out/posts.xlsx''))) ''out/posts.xlsx'') =
     Some (map (\<lambda>k. Some (PyStr k))
       [''subreddit'', ''post_id'', ''title'', ''score'', ''num_comments'', ''created_utc'',
        ''url'', ''permalink'', ''is_self_post'', ''selftext'', ''author'']) \<and>
   map (\<lambda>k. Some (PyStr k))
       [''subreddit'', ''post_id'', ''title'', ''score'', ''num_comments'', ''created_utc'',
        ''url'', ''permalink'', ''is_self_post'', ''selftext'', ''author''] \<noteq>
     map (\<lambda>k. Some (PyStr k)) spec_field_names"
proof -
  let ?D = "DataFrame [demo_link_record ''python'', demo_self_record ''python'']"
  let ?H = "map (\<lambda>k. Some (PyStr k))
       [''subreddit'', ''post_id'', ''title'', ''score'', ''num_comments'', ''created_utc'',
        ''url'', ''permalink'', ''is_self_post'', ''selftext'', ''author'']"
  have h: "hd (table_rows False ?D) = ?H"
    by (simp add: hd_table_rows demo_frame_python post_data_keys_def)
  have loop: "fst (scrape_loop demo_env demo_world [''python''] 25 ''week'' []) =
     Inr [demo_link_record ''python'', demo_self_record ''python'']"
    by (simp add: get_top_posts_demo_python)
  note c = save_to_csv_writes [OF demo_frame_python_not_empty,
      of demo_env demo_world "Some ''out/posts.csv''", unfolded demo_makedirs_out(4)]
  have c1: "fst (save_to_csv demo_env demo_world ?D (Some ''out/posts.csv'')) = Inr (Some ''out/posts.csv'')"
    and c2: "files (snd (save_to_csv demo_env demo_world ?D (Some ''out/posts.csv''))) ''out/posts.csv'' =
      Some (Csv, table_rows False ?D)"
    using c [OF demo_makedirs_out(2) [unfolded demo_makedirs_out(4)] demo_to_file_out(2)] by simp_all
  note x = save_to_excel_writes [OF demo_frame_python_not_empty,
      of demo_env demo_world "Some ''out/posts.xlsx''", unfolded demo_makedirs_out(3)]
  have x1: "fst (save_to_excel demo_env demo_world ?D (Some ''out/posts.xlsx'')) = Inr (Some ''out/posts.xlsx'')"
    and x2: "files (snd (save_to_excel demo_env demo_world ?D (Some ''out/posts.xlsx''))) ''out/posts.xlsx'' =
      Some (Xlsx, table_rows False ?D)"
    using x [OF demo_makedirs_out(1) [unfolded demo_makedirs_out(3)] demo_to_file_out(1)] by simp_all
  have c3: "map_option (\<lambda>(kind, rows). hd rows)
     (files (snd (save_to_csv demo_env demo_world ?D (Some ''out/posts.csv''))) ''out/posts.csv'') = Some ?H"
    unfolding c2 using h by simp
  have x3: "map_option (\<lambda>(kind, rows). hd rows)
     (files (snd (save_to_excel demo_env demo_world ?D (Some ''out/posts.xlsx''))) ''out/posts.xlsx'') = Some ?H"
    unfolding x2 using h by simp
  have d: "?H \<noteq> map (\<lambda>k. Some (PyStr k)) spec_field_names"
    by (simp add: spec_field_names_def)
  from loop c1 c3 x1 x3 d show ?thesis by (intro conjI)
qed

section \<open>Properties of the Batch Aggregator\<close>

lemma scrape_loop_fetch_each:
  "fst (scrape_loop E w subreddit_list limit time_filter all_posts) =
     (case fetch_each E w subreddit_list limit time_filter of
        Inl e \<Rightarrow> Inl e
      | Inr per_forum \<Rightarrow> Inr (all_posts @ concat per_forum))"
proof (induction subreddit_list arbitrary: w all_posts)
  case Nil
  show ?case by simp
next
  case (Cons subreddit rest)
  show ?case
  proof (cases "get_top_posts E (print (''Scraping r/'' @ subreddit @ ''...'') w) subreddit limit time_filter")
    case (Pair r w1)
    show ?thesis
    proof (cases r)
      case (Inl e)
      with Pair show ?thesis by simp
    next
      case (Inr posts)
      with Pair Cons.IH [of "sleep 2 w1" "all_posts @ posts"] show ?thesis
        by (simp split: sum.splits)
    qed
  qed
qed

lemma concat_empty_iff: "concat per_forum = [] \<longleftrightarrow> list_all (\<lambda>posts. posts = []) per_forum"
  by (induction per_forum) auto

text \<open>
  Claim C2. What \<^verbatim>\<open>scrape_multiple_subreddits\<close> returns is determined by the lists that
  the calls of \<^verbatim>\<open>get_top_posts\<close> return, forum by forum in the order of the input: when
  all of them are empty it is the empty frame \<^verbatim>\<open>pd.DataFrame()\<close>, and otherwise the frame
  with one row per record of their concatenation, in that order, nothing moved and nothing
  dropped. An exception that leaves a call of \<^verbatim>\<open>get_top_posts\<close> leaves the aggregator.
\<close>

theorem aggregate_is_concatenation:
  "fst (scrape_multiple_subreddits E w subreddit_list limit time_filter) =
     (case fetch_each E w subreddit_list limit time_filter of
        Inl e \<Rightarrow> Inl e
      | Inr per_forum \<Rightarrow>
          Inr (if list_all (\<lambda>posts. posts = []) per_forum then DataFrame_empty
               else \<lparr>df_columns = columns_of [] (concat per_forum),
                     df_rows = map (\<lambda>d. map (dict_get d) (columns_of [] (concat per_forum)))
                                 (concat per_forum)\<rparr>))"
proof (cases "fetch_each E w subreddit_list limit time_filter")
  case (Inl e)
  with scrape_loop_fetch_each [of E w subreddit_list limit time_filter "[]"]
  have "fst (scrape_loop E w subreddit_list limit time_filter []) = Inl e" by simp
  then have "fst (scrape_multiple_subreddits E w subreddit_list limit time_filter) = Inl e"
    by (cases "scrape_loop E w subreddit_list limit time_filter []")
       (simp add: scrape_multiple_subreddits_def)
  with Inl show ?thesis by simp
next
  case (Inr per_forum)
  with scrape_loop_fetch_each [of E w subreddit_list limit time_filter "[]"]
  have loop: "fst (scrape_loop E w subreddit_list limit time_filter []) = Inr (concat per_forum)"
    by simp
  then have "fst (scrape_multiple_subreddits E w subreddit_list limit time_filter) =
      Inr (if concat per_forum = [] then DataFrame_empty else DataFrame (concat per_forum))"
    by (cases "scrape_loop E w subreddit_list limit time_filter []")
       (simp add: scrape_multiple_subreddits_def)
  with Inr show ?thesis
    by (simp add: concat_empty_iff DataFrame_def Let_def list_all_iff)
qed

theorem aggregate_is_concatenation_witness:
  "fetch_each demo_env demo_world [''flaky'', ''python'', ''python''] 25 ''week'' =
     Inr [[], [demo_link_record ''python'', demo_self_record ''python''],
          [demo_link_record ''python'', demo_self_record ''python'']] \<and>
   fst (scrape_multiple_subreddits demo_env demo_world [''flaky'', ''python'', ''python''] 25 ''week'') =
     Inr \<lparr>df_columns = post_data_keys,
          df_rows = map (map (\<lambda>(k, v). Some v))
            [demo_link_record ''python'', demo_self_record ''python'',
             demo_link_record ''python'', demo_self_record ''python'']\<rparr> \<and>
   fetch_each demo_env demo_world [''flaky'', ''nosuch''] 25 ''week'' = Inr [[], []] \<and>
   fst (scrape_multiple_subreddits demo_env demo_world [''flaky'', ''nosuch''] 25 ''week'') =
     Inr DataFrame_empty"
proof -
  have a: "fst (scrape_multiple_subreddits demo_env demo_world [''flaky'', ''python'', ''python''] 25 ''week'') =
     Inr \<lparr>df_columns = post_data_keys,
          df_rows = map (map (\<lambda>(k, v). Some v))
            [demo_link_record ''python'', demo_self_record ''python'',
             demo_link_record ''python'', demo_self_record ''python'']\<rparr>"
    using aggregate_is_concatenation [of demo_env demo_world "[''flaky'', ''python'', ''python'']" 25 "''week''"]
    unfolding fetch_each_demo_repeat
    by (simp add: post_data_keys_def demo_link_record_def demo_self_record_def)
  have b: "fst (scrape_multiple_subreddits demo_env demo_world [''flaky'', ''nosuch''] 25 ''week'') =
     Inr DataFrame_empty"
    using aggregate_is_concatenation [of demo_env demo_world "[''flaky'', ''nosuch'']" 25 "''week''"]
    unfolding fetch_each_demo_empty
    by simp
  from fetch_each_demo_repeat a fetch_each_demo_empty b show ?thesis by (intro conjI)
qed

section \<open>The choice of the output kind in \<^verbatim>\<open>main\<close>\<close>

lemma endswith_last: "endswith s suffix \<Longrightarrow> suffix \<noteq> [] \<Longrightarrow> last s = last suffix"
proof -
  assume e: "endswith s suffix" and ne: "suffix \<noteq> []"
  from e have len: "length suffix \<le> length s" and d: "drop (length s - length suffix) s = suffix"
    by (simp_all add: endswith_def)
  from ne len have "length s - length suffix < length s" by (cases suffix) auto
  then have "last (drop (length s - length suffix) s) = last s" by (rule last_drop)
  with d show ?thesis by simp
qed

lemma xlsx_excludes_csv: "endswith out ''.xlsx'' \<Longrightarrow> \<not> endswith out ''.csv''"
proof
  assume x: "endswith out ''.xlsx''" and c: "endswith out ''.csv''"
  from endswith_last [OF x] endswith_last [OF c] show False by simp
qed

lemma save_to_excel_returns:
  assumes "save_to_excel E w df output_file = (Inr (Some p), w')"
  shows "\<not> df_empty df \<and>
         p = (case output_file of
                None \<Rightarrow> ''reddit_top_posts_'' @ strftime_Ymd_HMS (datetime_now E) @ ''.xlsx''
              | Some f \<Rightarrow> f) \<and>
         files w' p = Some (Xlsx, table_rows False df)"
proof -
  have ne: "\<not> df_empty df"
    using assms by (auto simp: save_to_excel_def)
  have "p = (case output_file of
                None \<Rightarrow> ''reddit_top_posts_'' @ strftime_Ymd_HMS (datetime_now E) @ ''.xlsx''
              | Some f \<Rightarrow> f)"
    using assms ne
    by (simp add: save_to_excel_def Let_def split: if_splits option.splits sum.splits)
  with save_to_excel_written [OF ne assms] ne show ?thesis by simp
qed

lemma save_to_csv_returns:
  assumes "save_to_csv E w df output_file = (Inr (Some p), w')"
  shows "\<not> df_empty df \<and>
         p = (case output_file of
                None \<Rightarrow> ''reddit_top_posts_'' @ strftime_Ymd_HMS (datetime_now E) @ ''.csv''
              | Some f \<Rightarrow> f) \<and>
         files w' p = Some (Csv, table_rows False df)"
proof -
  have ne: "\<not> df_empty df"
    using assms by (auto simp: save_to_csv_def)
  have "p = (case output_file of
                None \<Rightarrow> ''reddit_top_posts_'' @ strftime_Ymd_HMS (datetime_now E) @ ''.csv''
              | Some f \<Rightarrow> f)"
    using assms ne
    by (simp add: save_to_csv_def Let_def split: if_splits option.splits sum.splits)
  with save_to_csv_written [OF ne assms] ne show ?thesis by simp
qed

text \<open>
  Claim C5, for a destination that is not the empty string. The extension selects the
  output kind: a path that ends in \<^verbatim>\<open>.csv\<close> goes to \<^verbatim>\<open>save_to_csv\<close> as it is, a path that
  ends in \<^verbatim>\<open>.xlsx\<close> goes to \<^verbatim>\<open>save_to_excel\<close> as it is, and any other path goes to
  \<^verbatim>\<open>save_to_csv\<close> with \<^verbatim>\<open>.csv\<close> appended, after the line
  \<^verbatim>\<open>Unsupported output format. Using CSV format.\<close>; the path that the export returns
  holds a file of that kind. The empty string is taken as no destination.
\<close>

theorem output_kind_by_extension:
  assumes "out \<noteq> []"
  shows "(endswith out ''.csv'' \<longrightarrow>
            save_results E w df (Some out) = save_to_csv E w df (Some out)) \<and>
         (endswith out ''.xlsx'' \<longrightarrow>
            save_results E w df (Some out) = save_to_excel E w df (Some out)) \<and>
         (\<not> endswith out ''.csv'' \<and> \<not> endswith out ''.xlsx'' \<longrightarrow>
            save_results E w df (Some out) =
              save_to_csv E (print ''Unsupported output format. Using CSV format.'' w) df
                (Some (out @ ''.csv''))) \<and>
         (\<forall>p w'. save_results E w df (Some out) = (Inr (Some p), w') \<longrightarrow>
            p = (if endswith out ''.csv'' \<or> endswith out ''.xlsx'' then out else out @ ''.csv'') \<and>
            files w' p = Some (if endswith out ''.xlsx'' then Xlsx else Csv, table_rows False df)) \<and>
         save_results E w df (Some '''') = save_to_excel E w df None"
proof (intro conjI impI allI)
  assume "endswith out ''.csv''"
  with xlsx_excludes_csv [of out] assms
  show "save_results E w df (Some out) = save_to_csv E w df (Some out)"
    by (auto simp: save_results_def)
next
  assume "endswith out ''.xlsx''"
  with assms show "save_results E w df (Some out) = save_to_excel E w df (Some out)"
    by (simp add: save_results_def)
next
  assume "\<not> endswith out ''.csv'' \<and> \<not> endswith out ''.xlsx''"
  with assms show "save_results E w df (Some out) =
      save_to_csv E (print ''Unsupported output format. Using CSV format.'' w) df (Some (out @ ''.csv''))"
    by (simp add: save_results_def)
next
  fix p w'
  assume r: "save_results E w df (Some out) = (Inr (Some p), w')"
  show "p = (if endswith out ''.csv'' \<or> endswith out ''.xlsx'' then out else out @ ''.csv'')"
  proof (cases "endswith out ''.xlsx''")
    case True
    with r assms have "save_to_excel E w df (Some out) = (Inr (Some p), w')"
      by (simp add: save_results_def)
    from save_to_excel_returns [OF this] True show ?thesis by auto
  next
    case False
    show ?thesis
    proof (cases "endswith out ''.csv''")
      case True
      with r assms False have "save_to_csv E w df (Some out) = (Inr (Some p), w')"
        by (simp add: save_results_def)
      from save_to_csv_returns [OF this] True show ?thesis by auto
    next
      case nc: False
      with r assms False have "save_to_csv E (print ''Unsupported output format. Using CSV format.'' w)
          df (Some (out @ ''.csv'')) = (Inr (Some p), w')"
        by (simp add: save_results_def)
      from save_to_csv_returns [OF this] False nc show ?thesis by auto
    qed
  qed
next
  fix p w'
  assume r: "save_results E w df (Some out) = (Inr (Some p), w')"
  show "files w' p = Some (if endswith out ''.xlsx'' then Xlsx else Csv, table_rows False df)"
  proof (cases "endswith out ''.xlsx''")
    case True
    with r assms have "save_to_excel E w df (Some out) = (Inr (Some p), w')"
      by (simp add: save_results_def)
    from save_to_excel_returns [OF this] True show ?thesis by auto
  next
    case False
    show ?thesis
    proof (cases "endswith out ''.csv''")
      case True
      with r assms False have "save_to_csv E w df (Some out) = (Inr (Some p), w')"
        by (simp add: save_results_def)
      from save_to_csv_returns [OF this] False show ?thesis by auto
    next
      case nc: False
      with r assms False have "save_to_csv E (print ''Unsupported output format. Using CSV format.'' w)
          df (Some (out @ ''.csv'')) = (Inr (Some p), w')"
        by (simp add: save_results_def)
      from save_to_csv_returns [OF this] False show ?thesis by auto
    qed
  qed
next
  show "save_results E w df (Some '''') = save_to_excel E w df None"
    by (simp add: save_results_def)
qed


text \<open>The frame of one record, the clock and the directories of the concrete inputs.\<close>

lemma demo_frame_not_empty: "\<not> df_empty (DataFrame [demo_link_record ''python''])"
proof -
  have "\<forall>d\<in>set [demo_link_record ''python'']. map fst d = post_data_keys"
    by (simp add: demo_link_record_def post_data_keys_def)
  from DataFrame_of_records [OF _ this] show ?thesis
    by (simp add: df_empty_def post_data_keys_def)
qed

lemma strftime_demo_now: "strftime_Ymd_HMS demo_now = ''20261104_090507''"
  by (simp add: strftime_Ymd_HMS_def zfill2_def str_nat.simps digit_char_def demo_now_def)

lemma dirname_demo_default:
  "dirname ''reddit_top_posts_20261104_090507.xlsx'' = []"
  "dirname ''.csv'' = []" "dirname ''out.txt.csv'' = []" "dirname ''readonly/out.csv'' = ''readonly''"
  by (simp_all add: dirname_def)

theorem output_kind_by_extension_witness:
  "''out.txt'' \<noteq> [] \<and> \<not> endswith ''out.txt'' ''.csv'' \<and> \<not> endswith ''out.txt'' ''.xlsx'' \<and>
   save_results demo_env demo_world (DataFrame [demo_link_record ''python'']) (Some ''out.txt'') =
     save_to_csv demo_env (print ''Unsupported output format. Using CSV format.'' demo_world)
       (DataFrame [demo_link_record ''python'']) (Some ''out.txt.csv'') \<and>
   fst (save_to_csv demo_env (print ''Unsupported output format. Using CSV format.'' demo_world)
       (DataFrame [demo_link_record ''python'']) (Some ''out.txt.csv'')) = Inr (Some ''out.txt.csv'') \<and>
   endswith ''out.csv'' ''.csv'' \<and>
   save_results demo_env demo_world (DataFrame [demo_link_record ''python'']) (Some ''out.csv'') =
     save_to_csv demo_env demo_world (DataFrame [demo_link_record ''python'']) (Some ''out.csv'') \<and>
   endswith ''out.xlsx'' ''.xlsx'' \<and>
   save_results demo_env demo_world (DataFrame [demo_link_record ''python'']) (Some ''out.xlsx'') =
     save_to_excel demo_env demo_world (DataFrame [demo_link_record ''python'']) (Some ''out.xlsx'')"
proof -
  have other: "''out.txt'' \<noteq> []" "\<not> endswith ''out.txt'' ''.csv''" "\<not> endswith ''out.txt'' ''.xlsx''"
    by (simp_all add: endswith_def)
  have csv: "''out.csv'' \<noteq> []" "endswith ''out.csv'' ''.csv''"
    by (simp_all add: endswith_def)
  have xlsx: "''out.xlsx'' \<noteq> []" "endswith ''out.xlsx'' ''.xlsx''"
    by (simp_all add: endswith_def)
  have a: "save_results demo_env demo_world (DataFrame [demo_link_record ''python'']) (Some ''out.txt'') =
     save_to_csv demo_env (print ''Unsupported output format. Using CSV format.'' demo_world)
       (DataFrame [demo_link_record ''python'']) (Some ''out.txt.csv'')"
    using output_kind_by_extension [OF other(1), of demo_env demo_world "DataFrame [demo_link_record ''python'']"] other
    by simp
  have b: "save_results demo_env demo_world (DataFrame [demo_link_record ''python'']) (Some ''out.csv'') =
     save_to_csv demo_env demo_world (DataFrame [demo_link_record ''python'']) (Some ''out.csv'')"
    using output_kind_by_extension [OF csv(1), of demo_env demo_world "DataFrame [demo_link_record ''python'']"] csv
    by simp
  have c: "save_results demo_env demo_world (DataFrame [demo_link_record ''python'']) (Some ''out.xlsx'') =
     save_to_excel demo_env demo_world (DataFrame [demo_link_record ''python'']) (Some ''out.xlsx'')"
    using output_kind_by_extension [OF xlsx(1), of demo_env demo_world "DataFrame [demo_link_record ''python'']"] xlsx
    by simp
  have d: "fst (save_to_csv demo_env (print ''Unsupported output format. Using CSV format.'' demo_world)
       (DataFrame [demo_link_record ''python'']) (Some ''out.txt.csv'')) = Inr (Some ''out.txt.csv'')"
    by (simp add: save_to_csv_def demo_frame_not_empty dirname_demo_default demo_env_def Let_def)
  from other a d csv(2) b xlsx(2) c show ?thesis by (intro conjI)
qed

text \<open>
  Claim C5 as stated, for every supplied destination: it fails at \<^verbatim>\<open>--output ""\<close>. The
  empty string ends neither in \<^verbatim>\<open>.csv\<close> nor in \<^verbatim>\<open>.xlsx\<close>, so the claim sends it to the
  delimited-text output under the name \<^verbatim>\<open>.csv\<close>; the test \<^verbatim>\<open>if args.output\<close> of line 204
  is false for it, and line 214 writes the spreadsheet with the timestamped name.
\<close>

theorem empty_output_path_is_spreadsheet:
  "\<not> endswith '''' ''.csv'' \<and> \<not> endswith '''' ''.xlsx'' \<and>
   fst (save_results demo_env demo_world (DataFrame [demo_link_record ''python'']) (Some '''')) =
     Inr (Some ''reddit_top_posts_20261104_090507.xlsx'') \<and>
   fst (save_to_csv demo_env (print ''Unsupported output format. Using CSV format.'' demo_world)
          (DataFrame [demo_link_record ''python'']) (Some ('''' @ ''.csv''))) =
     Inr (Some ''.csv'')"
  by (simp add: endswith_def save_results_def save_to_excel_def save_to_csv_def demo_frame_not_empty
      strftime_demo_now dirname_demo_default demo_env_def Let_def)

section \<open>The default destination\<close>

lemma digit_char_cases:
  assumes "d < 10"
  shows "is_digit (digit_char d) \<and> digit_value (digit_char d) = d \<and> digit_char d \<noteq> CHR ''/''"
proof -
  from assms have "d = 0 \<or> d = 1 \<or> d = 2 \<or> d = 3 \<or> d = 4 \<or> d = 5 \<or> d = 6 \<or>
      d = 7 \<or> d = 8 \<or> d = 9" by arith
  then show ?thesis
    by (elim disjE) (simp_all add: digit_char_def is_digit_def digit_value_def)
qed

lemma is_digit_not_slash: "is_digit c \<Longrightarrow> c \<noteq> CHR ''/''"
  by (auto simp: is_digit_def)

lemma str_nat_digits: "list_all is_digit (str_nat n)"
proof (induction n rule: str_nat.induct)
  case (1 n)
  show ?case
  proof (cases "n < 10")
    case True
    then show ?thesis by (simp add: str_nat.simps [of n] digit_char_cases)
  next
    case False
    have "n mod 10 < 10" by simp
    with False 1 show ?thesis by (simp add: str_nat.simps [of n] digit_char_cases)
  qed
qed

lemma nat_of_digits_snoc: "nat_of_digits (s @ [c]) = 10 * nat_of_digits s + digit_value c"
  by (simp add: nat_of_digits_def)

lemma nat_of_digits_str_nat: "nat_of_digits (str_nat n) = n"
proof (induction n rule: str_nat.induct)
  case (1 n)
  show ?case
  proof (cases "n < 10")
    case True
    then show ?thesis
      by (simp add: str_nat.simps [of n] nat_of_digits_def digit_char_cases)
  next
    case False
    have "n mod 10 < 10" by simp
    then have "digit_value (digit_char (n mod 10)) = n mod 10" by (simp add: digit_char_cases)
    with False 1 show ?thesis
      by (simp add: str_nat.simps [of n] nat_of_digits_snoc)
  qed
qed

lemma length_str_nat_1: "n < 10 \<Longrightarrow> length (str_nat n) = 1"
  by (simp add: str_nat.simps [of n])

lemma length_str_nat_2: "10 \<le> n \<Longrightarrow> n < 100 \<Longrightarrow> length (str_nat n) = 2"
  by (simp add: str_nat.simps [of n] length_str_nat_1)

lemma length_str_nat_3: "100 \<le> n \<Longrightarrow> n < 1000 \<Longrightarrow> length (str_nat n) = 3"
  by (simp add: str_nat.simps [of n] length_str_nat_2)

lemma length_str_nat_4: "1000 \<le> n \<Longrightarrow> n \<le> 9999 \<Longrightarrow> length (str_nat n) = 4"
  by (simp add: str_nat.simps [of n] length_str_nat_3)

lemma length_zfill2: "n < 100 \<Longrightarrow> length (zfill2 n) = 2"
  by (simp add: zfill2_def length_str_nat_1 length_str_nat_2)

lemma zfill2_digits: "list_all is_digit (zfill2 n)"
  by (simp add: zfill2_def str_nat_digits is_digit_def)

lemma nat_of_digits_zfill2: "nat_of_digits (zfill2 n) = n"
proof (cases "n < 10")
  case True
  have "nat_of_digits (CHR ''0'' # str_nat n) = nat_of_digits (str_nat n)"
    by (simp add: nat_of_digits_def digit_value_def)
  with True show ?thesis by (simp add: zfill2_def nat_of_digits_str_nat)
next
  case False
  then show ?thesis by (simp add: zfill2_def nat_of_digits_str_nat)
qed

lemma strftime_no_slash: "CHR ''/'' \<notin> set (strftime_Ymd_HMS t)"
proof -
  have "\<And>n. CHR ''/'' \<notin> set (str_nat n)"
    using str_nat_digits is_digit_not_slash by (fastforce simp: list_all_iff)
  moreover have "\<And>n. CHR ''/'' \<notin> set (zfill2 n)"
    using zfill2_digits is_digit_not_slash by (fastforce simp: list_all_iff)
  ultimately show ?thesis by (simp add: strftime_Ymd_HMS_def)
qed

lemma dirname_no_slash: "CHR ''/'' \<notin> set p \<Longrightarrow> dirname p = []"
proof -
  assume "CHR ''/'' \<notin> set p"
  then have "dropWhile (\<lambda>c. c \<noteq> CHR ''/'') (rev p) = []"
    by (auto simp: dropWhile_eq_Nil_conv)
  then show ?thesis by (simp add: dirname_def)
qed

lemma dirname_default_name:
  "dirname (''reddit_top_posts_'' @ strftime_Ymd_HMS t @ ''.xlsx'') = []"
  "dirname (''reddit_top_posts_'' @ strftime_Ymd_HMS t @ ''.csv'') = []"
  using strftime_no_slash [of t] by (simp_all add: dirname_no_slash)

lemma strftime_shape:
  assumes "four_digit_datetime t"
  shows "matches_YYYYMMDD_HHMMSS (strftime_Ymd_HMS t)"
    and "nat_of_digits (take 4 (strftime_Ymd_HMS t)) = dt_year t"
    and "nat_of_digits (take 2 (drop 4 (strftime_Ymd_HMS t))) = dt_month t"
    and "nat_of_digits (take 2 (drop 6 (strftime_Ymd_HMS t))) = dt_day t"
    and "nat_of_digits (take 2 (drop 9 (strftime_Ymd_HMS t))) = dt_hour t"
    and "nat_of_digits (take 2 (drop 11 (strftime_Ymd_HMS t))) = dt_minute t"
    and "nat_of_digits (take 2 (drop 13 (strftime_Ymd_HMS t))) = dt_second t"
proof -
  from assms have y: "length (str_nat (dt_year t)) = 4"
    by (simp add: four_digit_datetime_def length_str_nat_4)
  from assms have m: "length (zfill2 (dt_month t)) = 2" and d: "length (zfill2 (dt_day t)) = 2"
    and H: "length (zfill2 (dt_hour t)) = 2" and M: "length (zfill2 (dt_minute t)) = 2"
    and S: "length (zfill2 (dt_second t)) = 2"
    by (simp_all add: four_digit_datetime_def length_zfill2)
  show "matches_YYYYMMDD_HHMMSS (strftime_Ymd_HMS t)"
    using y m d H M S
    by (simp add: matches_YYYYMMDD_HHMMSS_def strftime_Ymd_HMS_def str_nat_digits zfill2_digits
        nth_append)
  show "nat_of_digits (take 4 (strftime_Ymd_HMS t)) = dt_year t"
    using y by (simp add: strftime_Ymd_HMS_def nat_of_digits_str_nat)
  show "nat_of_digits (take 2 (drop 4 (strftime_Ymd_HMS t))) = dt_month t"
    using y m by (simp add: strftime_Ymd_HMS_def nat_of_digits_zfill2)
  show "nat_of_digits (take 2 (drop 6 (strftime_Ymd_HMS t))) = dt_day t"
    using y m d by (simp add: strftime_Ymd_HMS_def nat_of_digits_zfill2)
  show "nat_of_digits (take 2 (drop 9 (strftime_Ymd_HMS t))) = dt_hour t"
    using y m d H by (simp add: strftime_Ymd_HMS_def nat_of_digits_zfill2)
  show "nat_of_digits (take 2 (drop 11 (strftime_Ymd_HMS t))) = dt_minute t"
    using y m d H M by (simp add: strftime_Ymd_HMS_def nat_of_digits_zfill2)
  show "nat_of_digits (take 2 (drop 13 (strftime_Ymd_HMS t))) = dt_second t"
    using y m d H M S by (simp add: strftime_Ymd_HMS_def nat_of_digits_zfill2)
qed

text \<open>
  Claim C9. With no destination given, each export behaves as with the destination
  \<^verbatim>\<open>reddit_top_posts_\<close> followed by the clock's reading in the format
  \<^verbatim>\<open>%Y%m%d_%H%M%S\<close> and by the extension of its kind, \<^verbatim>\<open>.xlsx\<close> or \<^verbatim>\<open>.csv\<close>: for a
  frame that is not empty it returns that path and writes the file there, unless the
  writer raises. When \<^verbatim>\<open>--output\<close> is absent, \<^verbatim>\<open>main\<close> calls \<^verbatim>\<open>save_to_excel\<close> with no
  destination. For a clock reading from the year 1000 on the stamp has the shape
  \<^verbatim>\<open>YYYYMMDD_HHMMSS\<close>, and its digit groups read back as the year, month, day, hour,
  minute and second.
\<close>

theorem default_destination_is_timestamped:
  "save_to_excel E w df None =
     save_to_excel E w df (Some (''reddit_top_posts_'' @ strftime_Ymd_HMS (datetime_now E) @ ''.xlsx'')) \<and>
   save_to_csv E w df None =
     save_to_csv E w df (Some (''reddit_top_posts_'' @ strftime_Ymd_HMS (datetime_now E) @ ''.csv'')) \<and>
   (\<forall>name. \<not> df_empty df \<and> name = ''reddit_top_posts_'' @ strftime_Ymd_HMS (datetime_now E) @ ''.xlsx'' \<and>
      to_file E Xlsx name df = None \<longrightarrow>
      save_to_excel E w df None =
        (Inr (Some name),
         print (''Data saved to '' @ name) (w\<lparr>files := (files w)(name \<mapsto> (Xlsx, table_rows False df))\<rparr>))) \<and>
   (\<forall>name. \<not> df_empty df \<and> name = ''reddit_top_posts_'' @ strftime_Ymd_HMS (datetime_now E) @ ''.csv'' \<and>
      to_file E Csv name df = None \<longrightarrow>
      save_to_csv E w df None =
        (Inr (Some name),
         print (''Data saved to '' @ name) (w\<lparr>files := (files w)(name \<mapsto> (Csv, table_rows False df))\<rparr>))) \<and>
   save_results E w df None = save_to_excel E w df None \<and>
   (four_digit_datetime (datetime_now E) \<longrightarrow>
      matches_YYYYMMDD_HHMMSS (strftime_Ymd_HMS (datetime_now E)) \<and>
      nat_of_digits (take 4 (strftime_Ymd_HMS (datetime_now E))) = dt_year (datetime_now E) \<and>
      nat_of_digits (take 2 (drop 4 (strftime_Ymd_HMS (datetime_now E)))) = dt_month (datetime_now E) \<and>
      nat_of_digits (take 2 (drop 6 (strftime_Ymd_HMS (datetime_now E)))) = dt_day (datetime_now E) \<and>
      nat_of_digits (take 2 (drop 9 (strftime_Ymd_HMS (datetime_now E)))) = dt_hour (datetime_now E) \<and>
      nat_of_digits (take 2 (drop 11 (strftime_Ymd_HMS (datetime_now E)))) = dt_minute (datetime_now E) \<and>
      nat_of_digits (take 2 (drop 13 (strftime_Ymd_HMS (datetime_now E)))) = dt_second (datetime_now E))"
proof -
  have a: "save_to_excel E w df None =
     save_to_excel E w df (Some (''reddit_top_posts_'' @ strftime_Ymd_HMS (datetime_now E) @ ''.xlsx''))"
    by (simp add: save_to_excel_def)
  have b: "save_to_csv E w df None =
     save_to_csv E w df (Some (''reddit_top_posts_'' @ strftime_Ymd_HMS (datetime_now E) @ ''.csv''))"
    by (simp add: save_to_csv_def)
  have c: "\<forall>name. \<not> df_empty df \<and> name = ''reddit_top_posts_'' @ strftime_Ymd_HMS (datetime_now E) @ ''.xlsx'' \<and>
      to_file E Xlsx name df = None \<longrightarrow>
      save_to_excel E w df None =
        (Inr (Some name),
         print (''Data saved to '' @ name) (w\<lparr>files := (files w)(name \<mapsto> (Xlsx, table_rows False df))\<rparr>))"
    using dirname_default_name(1) [of "datetime_now E"]
    by (simp add: save_to_excel_def Let_def)
  have d: "\<forall>name. \<not> df_empty df \<and> name = ''reddit_top_posts_'' @ strftime_Ymd_HMS (datetime_now E) @ ''.csv'' \<and>
      to_file E Csv name df = None \<longrightarrow>
      save_to_csv E w df None =
        (Inr (Some name),
         print (''Data saved to '' @ name) (w\<lparr>files := (files w)(name \<mapsto> (Csv, table_rows False df))\<rparr>))"
    using dirname_default_name(2) [of "datetime_now E"]
    by (simp add: save_to_csv_def Let_def)
  have e: "save_results E w df None = save_to_excel E w df None"
    by (simp add: save_results_def)
  from a b c d e strftime_shape [of "datetime_now E"] show ?thesis by (intro conjI impI)
qed

theorem default_destination_is_timestamped_witness:
  "\<not> df_empty (DataFrame [demo_link_record ''python'']) \<and>
   four_digit_datetime (datetime_now demo_env) \<and>
   strftime_Ymd_HMS (datetime_now demo_env) = ''20261104_090507'' \<and>
   matches_YYYYMMDD_HHMMSS ''20261104_090507'' \<and>
   to_file demo_env Xlsx ''reddit_top_posts_20261104_090507.xlsx''
     (DataFrame [demo_link_record ''python'']) = None \<and>
   fst (save_to_excel demo_env demo_world (DataFrame [demo_link_record ''python'']) None) =
     Inr (Some ''reddit_top_posts_20261104_090507.xlsx'') \<and>
   to_file demo_env Csv ''reddit_top_posts_20261104_090507.csv''
     (DataFrame [demo_link_record ''python'']) = None \<and>
   fst (save_to_csv demo_env demo_world (DataFrame [demo_link_record ''python'']) None) =
     Inr (Some ''reddit_top_posts_20261104_090507.csv'')"
proof -
  let ?D = "DataFrame [demo_link_record ''python'']"
  have now: "datetime_now demo_env = demo_now" by (simp add: demo_env_def)
  have four: "four_digit_datetime (datetime_now demo_env)"
    by (simp add: now four_digit_datetime_def demo_now_def)
  have stamp: "strftime_Ymd_HMS (datetime_now demo_env) = ''20261104_090507''"
    by (simp add: now strftime_demo_now)
  have x: "to_file demo_env Xlsx ''reddit_top_posts_20261104_090507.xlsx'' ?D = None"
    and c: "to_file demo_env Csv ''reddit_top_posts_20261104_090507.csv'' ?D = None"
    by (simp_all add: demo_env_def)
  note r = default_destination_is_timestamped [of demo_env demo_world ?D, unfolded stamp]
  from r four have m: "matches_YYYYMMDD_HHMMSS ''20261104_090507''" by blast
  from r have "\<forall>name. \<not> df_empty ?D \<and> name = ''reddit_top_posts_'' @ ''20261104_090507'' @ ''.xlsx'' \<and>
      to_file demo_env Xlsx name ?D = None \<longrightarrow>
      save_to_excel demo_env demo_world ?D None =
        (Inr (Some name),
         print (''Data saved to '' @ name)
           (demo_world\<lparr>files := (files demo_world)(name \<mapsto> (Xlsx, table_rows False ?D))\<rparr>))"
    by (elim conjE)
  with demo_frame_not_empty x
  have sx: "fst (save_to_excel demo_env demo_world ?D None) =
      Inr (Some ''reddit_top_posts_20261104_090507.xlsx'')"
    by simp
  from r have "\<forall>name. \<not> df_empty ?D \<and> name = ''reddit_top_posts_'' @ ''20261104_090507'' @ ''.csv'' \<and>
      to_file demo_env Csv name ?D = None \<longrightarrow>
      save_to_csv demo_env demo_world ?D None =
        (Inr (Some name),
         print (''Data saved to '' @ name)
           (demo_world\<lparr>files := (files demo_world)(name \<mapsto> (Csv, table_rows False ?D))\<rparr>))"
    by (elim conjE)
  with demo_frame_not_empty c
  have sc: "fst (save_to_csv demo_env demo_world ?D None) =
      Inr (Some ''reddit_top_posts_20261104_090507.csv'')"
    by simp
  from demo_frame_not_empty four stamp m x sx c sc show ?thesis by (intro conjI)
qed

section \<open>The exit status of \<^verbatim>\<open>main\<close>\<close>

text \<open>
  The aggregator returns exactly when every handle of the run is taken, and it leaves
  the files and the directories as they were.
\<close>

lemma print_keeps [simp]:
  "api (print line w) = api w" "dirs (print line w) = dirs w" "files (print line w) = files w"
  by (simp_all add: print_def)

lemma sleep_keeps [simp]:
  "api (sleep n w) = api w" "dirs (sleep n w) = dirs w" "files (sleep n w) = files w"
  by (simp_all add: sleep_def)

lemma get_top_posts_with_handle:
  assumes "reddit_subreddit E (api w) subreddit_name = (Inr subreddit, s1)"
  shows "\<exists>posts w'. get_top_posts E w subreddit_name limit time_filter = (Inr posts, w') \<and>
           api w' = snd (subreddit_top E s1 subreddit time_filter limit) \<and>
           dirs w' = dirs w \<and> files w' = files w"
proof -
  obtain yielded raised s2 where top: "subreddit_top E s1 subreddit time_filter limit = ((yielded, raised), s2)"
    by (metis surj_pair)
  show ?thesis
  proof (cases "collect_posts (fromtimestamp E) subreddit_name yielded []")
    case (Inl e)
    with assms top show ?thesis by (simp add: get_top_posts_def)
  next
    case (Inr built)
    with assms top show ?thesis by (cases raised) (simp_all add: get_top_posts_def)
  qed
qed

lemma scrape_loop_with_handles:
  assumes "handles_return E (api w) subreddit_list limit time_filter"
  shows "\<exists>records w'. scrape_loop E w subreddit_list limit time_filter all_posts = (Inr records, w') \<and>
           dirs w' = dirs w \<and> files w' = files w"
  using assms
proof (induction subreddit_list arbitrary: w all_posts)
  case Nil
  show ?case by simp
next
  case (Cons name rest)
  obtain r s1 where h: "reddit_subreddit E (api w) name = (r, s1)"
    by (cases "reddit_subreddit E (api w) name")
  show ?case
  proof (cases r)
    case (Inl e)
    with h Cons.prems show ?thesis by simp
  next
    case (Inr subreddit)
    let ?w0 = "print (''Scraping r/'' @ name @ ''...'') w"
    from h Inr have h0: "reddit_subreddit E (api ?w0) name = (Inr subreddit, s1)" by simp
    from get_top_posts_with_handle [OF h0, of limit time_filter]
    obtain posts w1 where g: "get_top_posts E ?w0 name limit time_filter = (Inr posts, w1)"
      and a: "api w1 = snd (subreddit_top E s1 subreddit time_filter limit)"
      and d: "dirs w1 = dirs w" and f: "files w1 = files w"
      by auto
    from Cons.prems h Inr a have "handles_return E (api (sleep 2 w1)) rest limit time_filter"
      by simp
    from Cons.IH [OF this, of "all_posts @ posts"] g d f show ?thesis by simp
  qed
qed

lemma scrape_with_handles:
  assumes "handles_return E (api w) subreddit_list limit time_filter"
  shows "\<exists>df w'. scrape_multiple_subreddits E w subreddit_list limit time_filter = (Inr df, w') \<and>
           dirs w' = dirs w \<and> files w' = files w"
proof -
  from scrape_loop_with_handles [OF assms, of "[]"]
  obtain records w1 where "scrape_loop E w subreddit_list limit time_filter [] = (Inr records, w1)"
    and "dirs w1 = dirs w" and "files w1 = files w"
    by blast
  then show ?thesis by (simp add: scrape_multiple_subreddits_def)
qed

text \<open>An export returns exactly when the frame is empty or its two calls return.\<close>

lemma save_to_excel_Some_returns_iff:
  "(\<exists>r. fst (save_to_excel E w df (Some f)) = Inr r) \<longleftrightarrow>
   df_empty df \<or> makedirs_returns E w f \<and> to_file E Xlsx f df = None"
proof (cases "df_empty df")
  case True
  then show ?thesis by (simp add: save_to_excel_def)
next
  case False
  show ?thesis
  proof (cases "dirname f \<noteq> [] \<and> \<not> path_exists w (dirname f)")
    case called: True
    show ?thesis
    proof (cases "os_makedirs E (dirname f)")
      case None
      with called False show ?thesis
        by (cases "to_file E Xlsx f df") (simp_all add: save_to_excel_def makedirs_returns_def)
    next
      case (Some e)
      with called False show ?thesis
        by (simp add: save_to_excel_def makedirs_returns_def)
    qed
  next
    case skipped: False
    then have m: "makedirs_returns E w f" by (auto simp: makedirs_returns_def)
    from skipped False show ?thesis
      by (cases "to_file E Xlsx f df") (auto simp: save_to_excel_def Let_def m)
  qed
qed

lemma save_to_excel_None_is_default:
  "save_to_excel E w df None = save_to_excel E w df (Some (destination E Xlsx None))"
  by (simp add: save_to_excel_def destination_def)

lemma save_to_excel_returns_iff:
  "(\<exists>r. fst (save_to_excel E w df output_file) = Inr r) \<longleftrightarrow>
   df_empty df \<or>
   makedirs_returns E w (destination E Xlsx output_file) \<and>
   to_file E Xlsx (destination E Xlsx output_file) df = None"
proof (cases output_file)
  case None
  then show ?thesis
    using save_to_excel_Some_returns_iff [of E w df "destination E Xlsx None"]
    by (simp only: save_to_excel_None_is_default)
next
  case (Some f)
  have "destination E Xlsx (Some f) = f" by (simp add: destination_def)
  with Some show ?thesis
    using save_to_excel_Some_returns_iff [of E w df f] by simp
qed

lemma save_to_csv_Some_returns_iff:
  "(\<exists>r. fst (save_to_csv E w df (Some f)) = Inr r) \<longleftrightarrow>
   df_empty df \<or> makedirs_returns E w f \<and> to_file E Csv f df = None"
proof (cases "df_empty df")
  case True
  then show ?thesis by (simp add: save_to_csv_def)
next
  case False
  show ?thesis
  proof (cases "dirname f \<noteq> [] \<and> \<not> path_exists w (dirname f)")
    case called: True
    show ?thesis
    proof (cases "os_makedirs E (dirname f)")
      case None
      with called False show ?thesis
        by (cases "to_file E Csv f df") (simp_all add: save_to_csv_def makedirs_returns_def)
    next
      case (Some e)
      with called False show ?thesis
        by (simp add: save_to_csv_def makedirs_returns_def)
    qed
  next
    case skipped: False
    then have m: "makedirs_returns E w f" by (auto simp: makedirs_returns_def)
    from skipped False show ?thesis
      by (cases "to_file E Csv f df") (auto simp: save_to_csv_def Let_def m)
  qed
qed

lemma save_to_csv_None_is_default:
  "save_to_csv E w df None = save_to_csv E w df (Some (destination E Csv None))"
  by (simp add: save_to_csv_def destination_def)

lemma save_to_csv_returns_iff:
  "(\<exists>r. fst (save_to_csv E w df output_file) = Inr r) \<longleftrightarrow>
   df_empty df \<or>
   makedirs_returns E w (destination E Csv output_file) \<and>
   to_file E Csv (destination E Csv output_file) df = None"
proof (cases output_file)
  case None
  then show ?thesis
    using save_to_csv_Some_returns_iff [of E w df "destination E Csv None"]
    by (simp only: save_to_csv_None_is_default)
next
  case (Some f)
  have "destination E Csv (Some f) = f" by (simp add: destination_def)
  with Some show ?thesis
    using save_to_csv_Some_returns_iff [of E w df f] by simp
qed

lemma makedirs_returns_print [simp]:
  "makedirs_returns E (print line w) f = makedirs_returns E w f"
  by (simp add: makedirs_returns_def path_exists_def)

lemma save_results_returns_iff:
  "(\<exists>r. fst (save_results E w df output) = Inr r) \<longleftrightarrow> export_returns E w df output"
proof -
  have x: "\<And>f. (\<exists>r. fst (save_to_excel E w df f) = Inr r) \<longleftrightarrow>
      df_empty df \<or> makedirs_returns E w (destination E Xlsx f) \<and>
      to_file E Xlsx (destination E Xlsx f) df = None"
    by (rule save_to_excel_returns_iff)
  have c: "\<And>w f. (\<exists>r. fst (save_to_csv E w df f) = Inr r) \<longleftrightarrow>
      df_empty df \<or> makedirs_returns E w (destination E Csv f) \<and>
      to_file E Csv (destination E Csv f) df = None"
    by (rule save_to_csv_returns_iff)
  consider (absent) "output = None" | (empty) "output = Some []"
    | (xlsx) out where "output = Some out" "out \<noteq> []" "endswith out ''.xlsx''"
    | (csv) out where "output = Some out" "out \<noteq> []" "\<not> endswith out ''.xlsx''" "endswith out ''.csv''"
    | (other) out where "output = Some out" "out \<noteq> []" "\<not> endswith out ''.xlsx''" "\<not> endswith out ''.csv''"
    by (cases "output") auto
  then show ?thesis
  proof cases
    case absent
    have "save_results E w df None = save_to_excel E w df None" by (simp add: save_results_def)
    moreover have "export_returns E w df None \<longleftrightarrow>
        df_empty df \<or> makedirs_returns E w (destination E Xlsx None) \<and>
        to_file E Xlsx (destination E Xlsx None) df = None"
      by (simp add: export_returns_def export_target_def)
    ultimately show ?thesis unfolding absent using x [of None] by simp
  next
    case empty
    have "save_results E w df (Some []) = save_to_excel E w df None" by (simp add: save_results_def)
    moreover have "export_returns E w df (Some []) \<longleftrightarrow>
        df_empty df \<or> makedirs_returns E w (destination E Xlsx None) \<and>
        to_file E Xlsx (destination E Xlsx None) df = None"
      by (simp add: export_returns_def export_target_def)
    ultimately show ?thesis unfolding empty using x [of None] by simp
  next
    case xlsx
    have "save_results E w df (Some out) = save_to_excel E w df (Some out)"
      using xlsx by (simp add: save_results_def)
    moreover have "export_returns E w df (Some out) \<longleftrightarrow>
        df_empty df \<or> makedirs_returns E w (destination E Xlsx (Some out)) \<and>
        to_file E Xlsx (destination E Xlsx (Some out)) df = None"
      using xlsx by (simp add: export_returns_def export_target_def)
    ultimately show ?thesis unfolding xlsx(1) using x [of "Some out"] by simp
  next
    case csv
    have "save_results E w df (Some out) = save_to_csv E w df (Some out)"
      using csv by (simp add: save_results_def)
    moreover have "export_returns E w df (Some out) \<longleftrightarrow>
        df_empty df \<or> makedirs_returns E w (destination E Csv (Some out)) \<and>
        to_file E Csv (destination E Csv (Some out)) df = None"
      using csv by (simp add: export_returns_def export_target_def)
    ultimately show ?thesis unfolding csv(1) using c [of w "Some out"] by simp
  next
    case other
    have "save_results E w df (Some out) =
        save_to_csv E (print ''Unsupported output format. Using CSV format.'' w) df (Some (out @ ''.csv''))"
      using other by (simp add: save_results_def)
    moreover have "export_returns E w df (Some out) \<longleftrightarrow>
        df_empty df \<or> makedirs_returns E w (destination E Csv (Some (out @ ''.csv''))) \<and>
        to_file E Csv (destination E Csv (Some (out @ ''.csv''))) df = None"
      using other by (simp add: export_returns_def export_target_def)
    ultimately show ?thesis unfolding other(1)
      using c [of "print ''Unsupported output format. Using CSV format.'' w" "Some (out @ ''.csv'')"]
      by simp
  qed
qed

lemma export_returns_same:
  "dirs w' = dirs w \<Longrightarrow> files w' = files w \<Longrightarrow>
   export_returns E w' df output = export_returns E w df output"
  by (simp add: export_returns_def makedirs_returns_def path_exists_def)

text \<open>
  Claim C3, for the runs in which no \<^verbatim>\<open>print\<close> raises, every call of
  \<^verbatim>\<open>self.reddit.subreddit\<close> that the run makes returns a handle, and the export step of
  the run does not raise (the frame is empty, or the call of \<^verbatim>\<open>os.makedirs\<close>, where the
  run makes it, and the call of the writer for the destination of the run return):
  \<^verbatim>\<open>main\<close> returns and the exit status is 0, whatever the listings yield or raise and
  also when nothing was collected. When the export step of such a run raises, the exit
  status is 1.
\<close>

theorem main_completes_when_handles_and_export_succeed:
  assumes "handles_return E (api w) (arg_subreddits a) (arg_limit a) (arg_time_filter a)"
  shows "\<exists>df. fst (scrape_multiple_subreddits E w (arg_subreddits a) (arg_limit a) (arg_time_filter a)) = Inr df \<and>
           (export_returns E w df (arg_output a) \<longrightarrow>
              fst (main E w a) = Inr () \<and> exit_status (main E w a) = 0) \<and>
           (\<not> export_returns E w df (arg_output a) \<longrightarrow> exit_status (main E w a) = 1)"
proof -
  from scrape_with_handles [OF assms]
  obtain df w1 where s: "scrape_multiple_subreddits E w (arg_subreddits a) (arg_limit a)
      (arg_time_filter a) = (Inr df, w1)"
    and d: "dirs w1 = dirs w" and f: "files w1 = files w"
    by blast
  have same: "export_returns E w1 df (arg_output a) = export_returns E w df (arg_output a)"
    using d f by (rule export_returns_same)
  obtain r w2 where sr: "save_results E w1 df (arg_output a) = (r, w2)"
    by (cases "save_results E w1 df (arg_output a)")
  have yes: "fst (main E w a) = Inr () \<and> exit_status (main E w a) = 0"
    if "export_returns E w df (arg_output a)"
  proof -
    from that same save_results_returns_iff [of E w1 df "arg_output a"] sr
    obtain r' where "r = Inr r'" by auto
    with s sr show ?thesis by (simp add: main_def exit_status_def)
  qed
  have no: "exit_status (main E w a) = 1" if "\<not> export_returns E w df (arg_output a)"
  proof -
    from that same save_results_returns_iff [of E w1 df "arg_output a"] sr
    obtain e where "r = Inl e" by (cases r) auto
    with s sr show ?thesis by (simp add: main_def exit_status_def)
  qed
  from s yes no show ?thesis by auto
qed

text \<open>Without one of the handles the aggregator raises: the hypothesis on them is needed.\<close>

lemma scrape_loop_raises_without_handles:
  assumes "\<not> handles_return E (api w) subreddit_list limit time_filter"
  shows "\<exists>e. fst (scrape_loop E w subreddit_list limit time_filter all_posts) = Inl e"
  using assms
proof (induction subreddit_list arbitrary: w all_posts)
  case Nil
  then show ?case by simp
next
  case (Cons name rest)
  obtain r s1 where h: "reddit_subreddit E (api w) name = (r, s1)"
    by (cases "reddit_subreddit E (api w) name")
  let ?w0 = "print (''Scraping r/'' @ name @ ''...'') w"
  show ?case
  proof (cases r)
    case (Inl e)
    with h have "reddit_subreddit E (api ?w0) name = (Inl e, s1)" by simp
    from get_top_posts_handle_raises [OF this] show ?thesis by simp
  next
    case (Inr subreddit)
    with h have h0: "reddit_subreddit E (api ?w0) name = (Inr subreddit, s1)" by simp
    from get_top_posts_with_handle [OF h0, of limit time_filter]
    obtain posts w1 where g: "get_top_posts E ?w0 name limit time_filter = (Inr posts, w1)"
      and a: "api w1 = snd (subreddit_top E s1 subreddit time_filter limit)"
      by auto
    from Cons.prems h Inr a have "\<not> handles_return E (api (sleep 2 w1)) rest limit time_filter"
      by simp
    from Cons.IH [OF this, of "all_posts @ posts"] g show ?thesis by simp
  qed
qed

text \<open>
  Two runs on the concrete environment, whose writer raises for another destination: one
  writes \<^verbatim>\<open>out.csv\<close>, the other collects nothing and is sent to the destination that
  cannot be written.
\<close>

lemma demo_frame_two_not_empty:
  "\<not> df_empty (DataFrame [demo_link_record ''python'', demo_self_record ''python''])"
proof -
  have "\<forall>d\<in>set [demo_link_record ''python'', demo_self_record ''python'']. map fst d = post_data_keys"
    by (simp add: demo_link_record_def demo_self_record_def post_data_keys_def)
  from DataFrame_of_records [OF _ this] show ?thesis
    by (simp add: df_empty_def post_data_keys_def)
qed

lemma demo_args_fields:
  "arg_subreddits (demo_args names out) = names" "arg_limit (demo_args names out) = 25"
  "arg_time_filter (demo_args names out) = ''week''" "arg_output (demo_args names out) = out"
  by (simp_all add: demo_args_def)

lemma scrape_demo_nosuch_python:
  "\<exists>w1. scrape_multiple_subreddits demo_env demo_world [''nosuch'', ''python''] 25 ''week'' =
     (Inr (DataFrame [demo_link_record ''python'', demo_self_record ''python'']), w1)"
  by (simp add: scrape_multiple_subreddits_def get_top_posts_demo_nosuch get_top_posts_demo_python)

lemma scrape_demo_all_fail:
  "fst (scrape_multiple_subreddits demo_env demo_world [''flaky'', ''nosuch''] 25 ''week'') =
     Inr DataFrame_empty"
  by (simp add: scrape_multiple_subreddits_def get_top_posts_demo_nosuch get_top_posts_demo_flaky)

lemma demo_handles:
  "handles_return demo_env (api demo_world) [''nosuch'', ''python''] 25 ''week''"
  "handles_return demo_env (api demo_world) [''flaky'', ''nosuch''] 25 ''week''"
  by (simp_all add: demo_env_def demo_world_def)

lemma demo_export_out_csv:
  "export_returns demo_env demo_world (DataFrame [demo_link_record ''python'', demo_self_record ''python''])
     (Some ''out.csv'')"
  by (simp add: export_returns_def export_target_def endswith_def destination_def
      makedirs_returns_def dirname_def demo_env_def)

lemma main_demo_out_csv_written:
  "files (snd (main demo_env demo_world (demo_args [''nosuch'', ''python''] (Some ''out.csv'')))) ''out.csv'' =
     Some (Csv, table_rows False (DataFrame [demo_link_record ''python'', demo_self_record ''python'']))"
proof -
  let ?D = "DataFrame [demo_link_record ''python'', demo_self_record ''python'']"
  from scrape_demo_nosuch_python obtain w1 where
    s: "scrape_multiple_subreddits demo_env demo_world [''nosuch'', ''python''] 25 ''week'' = (Inr ?D, w1)"
    by blast
  have d: "destination demo_env Csv (Some ''out.csv'') = ''out.csv''"
    by (simp add: destination_def)
  have sel: "save_results demo_env w1 ?D (Some ''out.csv'') = save_to_csv demo_env w1 ?D (Some ''out.csv'')"
    by (simp add: save_results_def endswith_def)
  have m: "makedirs_returns demo_env w1 (destination demo_env Csv (Some ''out.csv''))"
    by (simp add: d makedirs_returns_def dirname_def)
  have "to_file demo_env Csv ''out.csv'' ?D = None"
    by (simp add: demo_env_def)
  then have f: "to_file demo_env Csv (destination demo_env Csv (Some ''out.csv'')) ?D = None"
    by (simp only: d)
  note w = save_to_csv_writes [OF demo_frame_two_not_empty m f, unfolded d]
  obtain r w2 where p: "save_to_csv demo_env w1 ?D (Some ''out.csv'') = (r, w2)"
    by (cases "save_to_csv demo_env w1 ?D (Some ''out.csv'')")
  with w have "r = Inr (Some ''out.csv'')"
    and "files w2 ''out.csv'' = Some (Csv, table_rows False ?D)"
    by simp_all
  with s sel p show ?thesis by (simp add: main_def demo_args_fields)
qed

theorem main_completes_when_handles_and_export_succeed_witness:
  "handles_return demo_env (api demo_world)
     (arg_subreddits (demo_args [''nosuch'', ''python''] (Some ''out.csv'')))
     (arg_limit (demo_args [''nosuch'', ''python''] (Some ''out.csv'')))
     (arg_time_filter (demo_args [''nosuch'', ''python''] (Some ''out.csv''))) \<and>
   fst (scrape_multiple_subreddits demo_env demo_world [''nosuch'', ''python''] 25 ''week'') =
     Inr (DataFrame [demo_link_record ''python'', demo_self_record ''python'']) \<and>
   export_returns demo_env demo_world
     (DataFrame [demo_link_record ''python'', demo_self_record ''python''])
     (arg_output (demo_args [''nosuch'', ''python''] (Some ''out.csv''))) \<and>
   to_file demo_env Csv ''readonly/out.csv''
     (DataFrame [demo_link_record ''python'', demo_self_record ''python'']) =
     Some (Exn ''Permission denied'') \<and>
   exit_status (main demo_env demo_world (demo_args [''nosuch'', ''python''] (Some ''out.csv''))) = 0 \<and>
   files (snd (main demo_env demo_world (demo_args [''nosuch'', ''python''] (Some ''out.csv'')))) ''out.csv'' =
     Some (Csv, table_rows False (DataFrame [demo_link_record ''python'', demo_self_record ''python''])) \<and>
   handles_return demo_env (api demo_world)
     (arg_subreddits (demo_args [''flaky'', ''nosuch''] (Some ''readonly/out.csv'')))
     (arg_limit (demo_args [''flaky'', ''nosuch''] (Some ''readonly/out.csv'')))
     (arg_time_filter (demo_args [''flaky'', ''nosuch''] (Some ''readonly/out.csv''))) \<and>
   fst (scrape_multiple_subreddits demo_env demo_world [''flaky'', ''nosuch''] 25 ''week'') =
     Inr DataFrame_empty \<and>
   exit_status (main demo_env demo_world (demo_args [''flaky'', ''nosuch''] (Some ''readonly/out.csv''))) = 0"
proof -
  let ?A = "demo_args [''nosuch'', ''python''] (Some ''out.csv'')"
  let ?B = "demo_args [''flaky'', ''nosuch''] (Some ''readonly/out.csv'')"
  let ?D = "DataFrame [demo_link_record ''python'', demo_self_record ''python'']"
  have ha: "handles_return demo_env (api demo_world) (arg_subreddits ?A) (arg_limit ?A) (arg_time_filter ?A)"
    using demo_handles(1) by (simp only: demo_args_fields)
  have hb: "handles_return demo_env (api demo_world) (arg_subreddits ?B) (arg_limit ?B) (arg_time_filter ?B)"
    using demo_handles(2) by (simp only: demo_args_fields)
  have sa: "fst (scrape_multiple_subreddits demo_env demo_world [''nosuch'', ''python''] 25 ''week'') = Inr ?D"
    using scrape_demo_nosuch_python by auto
  have ea: "export_returns demo_env demo_world ?D (arg_output ?A)"
    by (simp add: demo_args_fields demo_export_out_csv)
  have eb: "export_returns demo_env demo_world DataFrame_empty (arg_output ?B)"
    by (simp add: export_returns_def df_empty_def DataFrame_empty_def)
  have raises: "to_file demo_env Csv ''readonly/out.csv'' ?D = Some (Exn ''Permission denied'')"
    by (simp add: demo_env_def)
  from main_completes_when_handles_and_export_succeed [OF ha] sa ea
  have xa: "exit_status (main demo_env demo_world ?A) = 0"
    by (auto simp: demo_args_fields)
  from main_completes_when_handles_and_export_succeed [OF hb] scrape_demo_all_fail eb
  have xb: "exit_status (main demo_env demo_world ?B) = 0"
    by (auto simp: demo_args_fields)
  from ha sa ea raises xa main_demo_out_csv_written hb scrape_demo_all_fail xb
  show ?thesis by (intro conjI)
qed

lemma scrape_demo_python:
  "\<exists>w1. scrape_multiple_subreddits demo_env demo_world [''python''] 25 ''week'' =
     (Inr (DataFrame [demo_link_record ''python'', demo_self_record ''python'']), w1)"
  by (simp add: scrape_multiple_subreddits_def get_top_posts_demo_python)

lemma save_demo_readonly:
  "fst (save_results demo_env w (DataFrame [demo_link_record ''python'', demo_self_record ''python''])
     (Some ''readonly/out.csv'')) = Inl (Exn ''Permission denied'')"
proof -
  have e: "endswith ''readonly/out.csv'' ''.csv''" "\<not> endswith ''readonly/out.csv'' ''.xlsx''"
    by (simp_all add: endswith_def)
  show ?thesis
    by (simp add: save_results_def e save_to_csv_def demo_frame_two_not_empty demo_env_def Let_def)
qed

text \<open>
  Claim C3 as stated, for every invocation: it fails when the export raises. Neither the
  exporters nor \<^verbatim>\<open>main\<close> have a handler, so the exception of the writer for
  \<^verbatim>\<open>--output readonly/out.csv\<close> leaves \<^verbatim>\<open>main\<close> and the exit status is 1.
\<close>

theorem export_error_leaves_main:
  "fst (main demo_env demo_world (demo_args [''python''] (Some ''readonly/out.csv''))) =
     Inl (Exn ''Permission denied'') \<and>
   exit_status (main demo_env demo_world (demo_args [''python''] (Some ''readonly/out.csv''))) = 1"
proof -
  from scrape_demo_python obtain w1 where
    s: "scrape_multiple_subreddits demo_env demo_world [''python''] 25 ''week'' =
     (Inr (DataFrame [demo_link_record ''python'', demo_self_record ''python'']), w1)"
    by blast
  have "fst (main demo_env demo_world (demo_args [''python''] (Some ''readonly/out.csv''))) =
     Inl (Exn ''Permission denied'')"
    using save_demo_readonly [of w1]
    by (cases "save_results demo_env w1
          (DataFrame [demo_link_record ''python'', demo_self_record ''python'']) (Some ''readonly/out.csv'')")
       (simp add: main_def demo_args_def s)
  then show ?thesis by (simp add: exit_status_def)
qed

end
